theory Spec2Isabelle
  imports Main
begin

section \<open>The RDS instance reconciler (pkg/controller/rds/rdsinstance.go)\<close>

text \<open>
  A shallow embedding of the lifecycle reconciler of \<^verbatim>\<open>rdsinstance.go\<close>. The Go
  methods mutate the record behind a pointer and call out to four collaborators (the
  record store, the reference resolver, the connection publisher and the provider
  client). Here every method takes the record and returns an \<open>outcome\<close>: the
  \<^verbatim>\<open>reconcile.Result\<close>, the returned error, the record as the method left it, and the
  list of collaborator calls it made, in order. The collaborators are function fields of
  a record, as they are interface fields of the Go struct, so that every answer they may
  give is an input of the model.
\<close>

subsection \<open>Errors\<close>

text \<open>
  Modelled from the spec: the error predicates belong to libraries outside the
  repository's sources; the spec has the provider client classify its errors ``into "not
  found" / "already exists" / other'' and the resolver's as ``"access blocked" vs. other''.
  Go's \<^verbatim>\<open>error\<close> values, by the classification the reconciler asks of them:
  \<^verbatim>\<open>kerrors.IsNotFound\<close> (record store), \<^verbatim>\<open>rds.IsErrorAlreadyExists\<close> and
  \<^verbatim>\<open>rds.IsErrorNotFound\<close> (provider), \<^verbatim>\<open>resource.IsReferencesAccessError\<close>
  (resolver). A nil error is \<open>None\<close> of \<open>error option\<close>. \<open>Wrapped\<close> is what
  \<^verbatim>\<open>errors.Wrap\<close> builds around a non-nil error.
\<close>

datatype error =
    KubeNotFound string
  | RDSAlreadyExists string
  | RDSNotFound string
  | ReferencesAccessError string
  | OtherError string
  | Wrapped error string

text \<open>\<^verbatim>\<open>err.Error()\<close>: the message of an error.\<close>

fun Error :: "error \<Rightarrow> string" where
  "Error (KubeNotFound m) = m"
| "Error (RDSAlreadyExists m) = m"
| "Error (RDSNotFound m) = m"
| "Error (ReferencesAccessError m) = m"
| "Error (OtherError m) = m"
| "Error (Wrapped e m) = m @ '': '' @ Error e"

text \<open>\<^verbatim>\<open>kerrors.IsNotFound(err)\<close>, asked of a non-nil error of the record store.\<close>

fun IsNotFound :: "error \<Rightarrow> bool" where
  "IsNotFound (KubeNotFound m) = True"
| "IsNotFound e = False"

text \<open>\<^verbatim>\<open>rds.IsErrorAlreadyExists(err)\<close>; false of the nil error.\<close>

fun IsErrorAlreadyExists :: "error option \<Rightarrow> bool" where
  "IsErrorAlreadyExists (Some (RDSAlreadyExists m)) = True"
| "IsErrorAlreadyExists e = False"

text \<open>\<^verbatim>\<open>rds.IsErrorNotFound(err)\<close>, asked of a non-nil provider error.\<close>

fun IsErrorNotFound :: "error \<Rightarrow> bool" where
  "IsErrorNotFound (RDSNotFound m) = True"
| "IsErrorNotFound e = False"

text \<open>\<^verbatim>\<open>resource.IsReferencesAccessError(err)\<close>.\<close>

fun IsReferencesAccessError :: "error \<Rightarrow> bool" where
  "IsReferencesAccessError (ReferencesAccessError m) = True"
| "IsReferencesAccessError e = False"

text \<open>
  \<^verbatim>\<open>resource.Ignore(is, err)\<close>: nil when \<open>is\<close> holds of the error, the error itself
  otherwise.
\<close>

definition Ignore :: "(error option \<Rightarrow> bool) \<Rightarrow> error option \<Rightarrow> error option" where
  "Ignore is e = (if is e then None else e)"

text \<open>\<^verbatim>\<open>errors.Wrap(err, message)\<close>: nil for the nil error.\<close>

fun Wrap :: "error option \<Rightarrow> string \<Rightarrow> error option" where
  "Wrap None m = None"
| "Wrap (Some e) m = Some (Wrapped e m)"

subsection \<open>Conditions\<close>

text \<open>
  Modelled from the spec: the condition library (\<^verbatim>\<open>runtimev1alpha1\<close> of
  crossplane-runtime) is outside the repository's sources. The spec: conditions are ``an ordered set keyed
  by condition type (e.g. Ready, Synced, ReferencesResolved); each setCondition call
  replaces the entry for its type -- last write wins per type, history is not
  retained'', and each is ``a (type, status, reason, message, transition-time) tuple;
  only one entry per type is retained''. The transition time is left out: it is the
  wall clock at the call. The vocabulary is the one the source calls:
  \<^verbatim>\<open>Creating\<close>, \<^verbatim>\<open>Available\<close>, \<^verbatim>\<open>Unavailable\<close> and \<^verbatim>\<open>Deleting\<close> are entries of type
  Ready, \<^verbatim>\<open>ReconcileSuccess\<close> and \<^verbatim>\<open>ReconcileError\<close> of type Synced,
  \<^verbatim>\<open>ReferenceResolutionSuccess\<close> and \<^verbatim>\<open>ReferenceResolutionBlocked\<close> of type
  ReferencesResolved.
\<close>

datatype ConditionType = TypeReady | TypeSynced | TypeReferencesResolved

datatype ConditionStatus = ConditionTrue | ConditionFalse | ConditionUnknown

datatype ConditionReason =
    ReasonNone
  | ReasonAvailable
  | ReasonUnavailable
  | ReasonCreating
  | ReasonDeleting
  | ReasonReconcileSuccess
  | ReasonReconcileError
  | ReasonReferenceResolveSuccess
  | ReasonResolveReferencesBlocked

record Condition =
  Type :: ConditionType
  CStatus :: ConditionStatus
  Reason :: ConditionReason
  Message :: string

definition Creating :: Condition where
  "Creating = \<lparr>Type = TypeReady, CStatus = ConditionFalse, Reason = ReasonCreating, Message = ''''\<rparr>"

definition Available :: Condition where
  "Available = \<lparr>Type = TypeReady, CStatus = ConditionTrue, Reason = ReasonAvailable, Message = ''''\<rparr>"

definition Unavailable :: Condition where
  "Unavailable = \<lparr>Type = TypeReady, CStatus = ConditionFalse, Reason = ReasonUnavailable, Message = ''''\<rparr>"

definition Deleting :: Condition where
  "Deleting = \<lparr>Type = TypeReady, CStatus = ConditionFalse, Reason = ReasonDeleting, Message = ''''\<rparr>"

definition ReconcileSuccess :: Condition where
  "ReconcileSuccess =
     \<lparr>Type = TypeSynced, CStatus = ConditionTrue, Reason = ReasonReconcileSuccess, Message = ''''\<rparr>"

definition ReconcileError :: "error \<Rightarrow> Condition" where
  "ReconcileError e =
     \<lparr>Type = TypeSynced, CStatus = ConditionFalse, Reason = ReasonReconcileError, Message = Error e\<rparr>"

definition ReferenceResolutionSuccess :: Condition where
  "ReferenceResolutionSuccess =
     \<lparr>Type = TypeReferencesResolved, CStatus = ConditionTrue,
      Reason = ReasonReferenceResolveSuccess, Message = ''''\<rparr>"

definition ReferenceResolutionBlocked :: "error \<Rightarrow> Condition" where
  "ReferenceResolutionBlocked e =
     \<lparr>Type = TypeReferencesResolved, CStatus = ConditionFalse,
      Reason = ReasonResolveReferencesBlocked, Message = Error e\<rparr>"

text \<open>
  Modelled from the spec: one \<^verbatim>\<open>setCondition\<close> replaces the entry (every entry) of the
  new condition's type, and appends the condition when the list has none of that type.
\<close>

definition SetCondition :: "Condition \<Rightarrow> Condition list \<Rightarrow> Condition list" where
  "SetCondition c cs =
     (if Type c \<in> set (map Type cs)
      then map (\<lambda>x. if Type x = Type c then c else x) cs
      else cs @ [c])"

text \<open>\<^verbatim>\<open>SetConditions(c...)\<close>: one \<open>SetCondition\<close> per argument, left to right.\<close>

definition SetConditions :: "Condition list \<Rightarrow> Condition list \<Rightarrow> Condition list" where
  "SetConditions new cs = fold SetCondition new cs"

text \<open>
  Modelled from the spec: \<^verbatim>\<open>GetCondition(ct)\<close> is the entry of type \<open>ct\<close>, or an
  entry of unknown status when there is none; \<^verbatim>\<open>resource.IsConditionTrue\<close> asks
  whether its status is true.
\<close>

definition GetCondition :: "ConditionType \<Rightarrow> Condition list \<Rightarrow> Condition" where
  "GetCondition ct cs =
     (case find (\<lambda>c. Type c = ct) cs of
        Some c \<Rightarrow> c
      | None \<Rightarrow> \<lparr>Type = ct, CStatus = ConditionUnknown, Reason = ReasonNone, Message = ''''\<rparr>)"

definition IsConditionTrue :: "Condition \<Rightarrow> bool" where
  "IsConditionTrue c = (CStatus c = ConditionTrue)"

subsection \<open>The record: \<^verbatim>\<open>databasev1alpha2.RDSInstance\<close>\<close>

text \<open>
  The fields the reconciler reads or writes. \<^verbatim>\<open>ReclaimPolicy\<close> and the external state
  are Go string types; \<^verbatim>\<open>DeletionTimestamp\<close> is a pointer, nil when no deletion is
  intended (the time it points to is a number here). The binding phase of the status is
  the flag \<open>Bindable\<close>, see \<open>SetBindable\<close> below.
\<close>

type_synonym Time = nat

record RDSInstanceSpec =
  Engine :: string
  MasterUsername :: string
  ReclaimPolicy :: string
  ProviderReference :: string

record RDSInstanceStatus =
  Conditions :: "Condition list"
  Bindable :: bool
  State :: string
  Endpoint :: string
  ProviderID :: string
  InstanceName :: string

record RDSInstance =
  UID :: string
  DeletionTimestamp :: "Time option"
  Finalizers :: "string list"
  Spec :: RDSInstanceSpec
  Status :: RDSInstanceStatus

text \<open>\<^verbatim>\<open>&databasev1alpha2.RDSInstance{}\<close>: the zero value \<open>Reconcile\<close> fetches into.\<close>

definition RDSInstance_zero :: RDSInstance where
  "RDSInstance_zero =
     \<lparr>UID = '''', DeletionTimestamp = None, Finalizers = [],
      Spec = \<lparr>Engine = '''', MasterUsername = '''', ReclaimPolicy = '''', ProviderReference = ''''\<rparr>,
      Status = \<lparr>Conditions = [], Bindable = False, State = '''', Endpoint = '''',
                ProviderID = '''', InstanceName = ''''\<rparr>\<rparr>"

text \<open>
  Modelled from the spec: the constants of the API packages are outside the repository's
  sources. The spec names the reclaim policies \<^verbatim>\<open>Delete\<close> and \<^verbatim>\<open>Retain\<close> and the
  external states \<^verbatim>\<open>creating\<close>, \<^verbatim>\<open>available\<close> and \<^verbatim>\<open>failed\<close>.
\<close>

definition ReclaimDelete :: string where
  "ReclaimDelete = ''Delete''"

definition ReclaimRetain :: string where
  "ReclaimRetain = ''Retain''"

definition RDSInstanceStateCreating :: string where
  "RDSInstanceStateCreating = ''creating''"

definition RDSInstanceStateFailed :: string where
  "RDSInstanceStateFailed = ''failed''"

definition RDSInstanceStateAvailable :: string where
  "RDSInstanceStateAvailable = ''available''"

text \<open>\<^verbatim>\<open>instance.Status.SetConditions(c...)\<close>.\<close>

definition Status_SetConditions :: "Condition list \<Rightarrow> RDSInstance \<Rightarrow> RDSInstance" where
  "Status_SetConditions new instance =
     instance\<lparr>Status := (Status instance)\<lparr>Conditions := SetConditions new (Conditions (Status instance))\<rparr>\<rparr>"

text \<open>\<^verbatim>\<open>instance.GetCondition(ct)\<close>.\<close>

definition RDSInstance_GetCondition :: "RDSInstance \<Rightarrow> ConditionType \<Rightarrow> Condition" where
  "RDSInstance_GetCondition instance ct = GetCondition ct (Conditions (Status instance))"

text \<open>
  Modelled from the spec: \<^verbatim>\<open>resource.SetBindable\<close> is outside the repository's sources.
  The spec: it marks the record bindable, ``eligible for consumption by dependents''
  (``bindable=true'').
\<close>

definition SetBindable :: "RDSInstance \<Rightarrow> RDSInstance" where
  "SetBindable instance = instance\<lparr>Status := (Status instance)\<lparr>Bindable := True\<rparr>\<rparr>"

text \<open>
  Modelled from the spec: \<^verbatim>\<open>meta.AddFinalizer\<close> and \<^verbatim>\<open>meta.RemoveFinalizer\<close> are
  outside the repository's sources. The spec: finalizers are ``a set of opaque markers'';
  the reconciler adds and removes its one named finalizer. Adding a marker already
  present changes nothing; removing it leaves no occurrence.
\<close>

definition AddFinalizer :: "RDSInstance \<Rightarrow> string \<Rightarrow> RDSInstance" where
  "AddFinalizer instance f =
     (if f \<in> set (Finalizers instance) then instance
      else instance\<lparr>Finalizers := Finalizers instance @ [f]\<rparr>)"

definition RemoveFinalizer :: "RDSInstance \<Rightarrow> string \<Rightarrow> RDSInstance" where
  "RemoveFinalizer instance f = instance\<lparr>Finalizers := removeAll f (Finalizers instance)\<rparr>"

subsection \<open>Constants of the controller\<close>

definition controllerName :: string where
  "controllerName = ''rds.aws.crossplane.io''"

definition finalizer :: string where
  "finalizer = ''finalizer.'' @ controllerName"

text \<open>\<^verbatim>\<open>time.Duration\<close> counts nanoseconds.\<close>

type_synonym Duration = int

definition Second :: Duration where
  "Second = 1000000000"

definition aLongWait :: Duration where
  "aLongWait = 60 * Second"

definition errUpdateManagedStatus :: string where
  "errUpdateManagedStatus = ''cannot update managed resource status''"

record Result =
  Requeue :: bool
  RequeueAfter :: Duration

text \<open>\<^verbatim>\<open>reconcile.Result{}\<close> and \<^verbatim>\<open>reconcile.Result{Requeue: true}\<close>.\<close>

definition result :: Result where
  "result = \<lparr>Requeue = False, RequeueAfter = 0\<rparr>"

definition resultRequeue :: Result where
  "resultRequeue = \<lparr>Requeue = True, RequeueAfter = 0\<rparr>"

text \<open>
  The keys of the published connection details
  (\<^verbatim>\<open>runtimev1alpha1.ResourceCredentialsSecret...Key\<close>, constants of crossplane-runtime):
  the spec speaks of the username, the generated credential and the endpoint.
\<close>

definition ResourceCredentialsSecretUserKey :: string where
  "ResourceCredentialsSecretUserKey = ''username''"

definition ResourceCredentialsSecretPasswordKey :: string where
  "ResourceCredentialsSecretPasswordKey = ''password''"

definition ResourceCredentialsSecretEndpointKey :: string where
  "ResourceCredentialsSecretEndpointKey = ''endpoint''"

subsection \<open>Collaborators\<close>

text \<open>
  \<^verbatim>\<open>rds.Instance\<close>, what the provider's get returns, and \<^verbatim>\<open>rds.Client\<close>, the provider
  client. The source discards the instance that \<^verbatim>\<open>CreateInstance\<close> and
  \<^verbatim>\<open>DeleteInstance\<close> return, so those two answer with the error alone.
\<close>

record rds_Instance =
  InstName :: string
  ARN :: string
  InstStatus :: string
  InstEndpoint :: string

record rds_Client =
  CreateInstance :: "string \<Rightarrow> string \<Rightarrow> RDSInstanceSpec \<Rightarrow> error option"
  GetInstance :: "string \<Rightarrow> error + rds_Instance"
  DeleteInstance :: "string \<Rightarrow> error option"

type_synonym ConnectionDetails = "(string \<times> string) list"

type_synonym NamespacedName = string

type_synonym aws_Config = string

text \<open>
  The calls a method makes that act on the world or on the provider. Reading the record
  (\<^verbatim>\<open>Get\<close>) and building the client are not listed.
\<close>

datatype event =
    CallResolveReferences RDSInstance
  | CallCreateInstance string string RDSInstanceSpec
  | CallGetInstance string
  | CallDeleteInstance string
  | CallPublishConnection RDSInstance ConnectionDetails
  | CallUpdate RDSInstance

record outcome =
  res :: Result
  err :: "error option"
  obj :: RDSInstance
  calls :: "event list"

text \<open>
  The interfaces embedded in the Go \<^verbatim>\<open>Reconciler\<close> (\<^verbatim>\<open>client.Client\<close>,
  \<^verbatim>\<open>ManagedReferenceResolver\<close>, \<^verbatim>\<open>ManagedConnectionPublisher\<close>) and the package
  functions the methods call (\<^verbatim>\<open>util.GeneratePassword\<close>,
  \<^verbatim>\<open>utils.RetrieveAwsConfigFromProvider\<close>, \<^verbatim>\<open>rds.NewClient\<close>). Following the spec's
  interfaces, a collaborator answers with an error or nil and leaves the record it is
  handed as it is.
\<close>

record Collaborators =
  Get :: "NamespacedName \<Rightarrow> error + RDSInstance"
  Update :: "RDSInstance \<Rightarrow> error option"
  ResolveReferences :: "RDSInstance \<Rightarrow> error option"
  PublishConnection :: "RDSInstance \<Rightarrow> ConnectionDetails \<Rightarrow> error option"
  GeneratePassword :: "nat \<Rightarrow> error + string"
  RetrieveAwsConfigFromProvider :: "string \<Rightarrow> error + aws_Config"
  NewClient :: "aws_Config \<Rightarrow> rds_Client"

text \<open>The Go struct: the collaborators and the four phase functions held as fields.\<close>

record Reconciler = Collaborators +
  connect :: "RDSInstance \<Rightarrow> error + rds_Client"
  create :: "RDSInstance \<Rightarrow> rds_Client \<Rightarrow> outcome"
  sync :: "RDSInstance \<Rightarrow> rds_Client \<Rightarrow> outcome"
  delete :: "RDSInstance \<Rightarrow> rds_Client \<Rightarrow> outcome"

text \<open>The calls made before a method was entered come first in its outcome.\<close>

definition after :: "event list \<Rightarrow> outcome \<Rightarrow> outcome" where
  "after evs out = out\<lparr>calls := evs @ calls out\<rparr>"

subsection \<open>The methods\<close>

text \<open>\<^verbatim>\<open>fail\<close> (lines 101-104).\<close>

definition fail :: "'a Collaborators_scheme \<Rightarrow> RDSInstance \<Rightarrow> error \<Rightarrow> outcome" where
  "fail r instance e =
     (let instance = Status_SetConditions [ReconcileError e] instance
      in \<lparr>res = \<lparr>Requeue = True, RequeueAfter = 0\<rparr>, err = Update r instance,
          obj = instance, calls = [CallUpdate instance]\<rparr>)"

text \<open>\<^verbatim>\<open>_connect\<close> (lines 106-114).\<close>

definition Reconciler_connect ::
  "'a Collaborators_scheme \<Rightarrow> RDSInstance \<Rightarrow> error + rds_Client" where
  "Reconciler_connect r instance =
     (case RetrieveAwsConfigFromProvider r (ProviderReference (Spec instance)) of
        Inl e \<Rightarrow> Inl e
      | Inr config \<Rightarrow> Inr (NewClient r config))"

text \<open>\<^verbatim>\<open>_create\<close> (lines 116-149).\<close>

definition Reconciler_create ::
  "'a Collaborators_scheme \<Rightarrow> RDSInstance \<Rightarrow> rds_Client \<Rightarrow> outcome" where
  "Reconciler_create r instance client =
     (let instance = Status_SetConditions [Creating] instance;
          resourceName = Engine (Spec instance) @ ''-'' @ UID instance
      in case GeneratePassword r 20 of
           Inl e \<Rightarrow> fail r instance e
         | Inr password \<Rightarrow>
             (let e = CreateInstance client resourceName password (Spec instance);
                  created = [CallCreateInstance resourceName password (Spec instance)]
              in case Ignore IsErrorAlreadyExists e of
                   Some e' \<Rightarrow> after created (fail r instance e')
                 | None \<Rightarrow>
                     (let details =
                            [(ResourceCredentialsSecretUserKey, MasterUsername (Spec instance)),
                             (ResourceCredentialsSecretPasswordKey, password)];
                          published =
                            (if \<not> IsErrorAlreadyExists e
                             then [CallPublishConnection instance details] else []);
                          perr =
                            (if \<not> IsErrorAlreadyExists e
                             then PublishConnection r instance details else None)
                      in case perr of
                           Some e' \<Rightarrow> after (created @ published) (fail r instance e')
                         | None \<Rightarrow>
                             (let instance =
                                    instance\<lparr>Status := (Status instance)\<lparr>InstanceName := resourceName\<rparr>\<rparr>;
                                  instance = AddFinalizer instance finalizer;
                                  instance = Status_SetConditions [ReconcileSuccess] instance
                              in \<lparr>res = resultRequeue, err = Update r instance, obj = instance,
                                  calls = created @ published @ [CallUpdate instance]\<rparr>))))"

text \<open>\<^verbatim>\<open>_sync\<close> (lines 151-186).\<close>

definition Reconciler_sync ::
  "'a Collaborators_scheme \<Rightarrow> RDSInstance \<Rightarrow> rds_Client \<Rightarrow> outcome" where
  "Reconciler_sync r instance client =
     (let got = [CallGetInstance (InstanceName (Status instance))]
      in case GetInstance client (InstanceName (Status instance)) of
           Inl e \<Rightarrow> after got (fail r instance e)
         | Inr db \<Rightarrow>
             (let instance =
                    instance\<lparr>Status := (Status instance)
                      \<lparr>State := InstStatus db, Endpoint := InstEndpoint db, ProviderID := ARN db\<rparr>\<rparr>
              in if InstStatus db = RDSInstanceStateCreating then
                   (let instance = Status_SetConditions [Creating, ReconcileSuccess] instance
                    in \<lparr>res = resultRequeue, err = Update r instance, obj = instance,
                        calls = got @ [CallUpdate instance]\<rparr>)
                 else if InstStatus db = RDSInstanceStateFailed then
                   (let instance = Status_SetConditions [Unavailable, ReconcileSuccess] instance
                    in \<lparr>res = result, err = Update r instance, obj = instance,
                        calls = got @ [CallUpdate instance]\<rparr>)
                 else if InstStatus db = RDSInstanceStateAvailable then
                   (let instance = Status_SetConditions [Available] instance;
                        instance = SetBindable instance;
                        details =
                          [(ResourceCredentialsSecretUserKey, MasterUsername (Spec instance)),
                           (ResourceCredentialsSecretEndpointKey, Endpoint (Status instance))];
                        published = [CallPublishConnection instance details]
                    in case PublishConnection r instance details of
                         Some e \<Rightarrow> after (got @ published) (fail r instance e)
                       | None \<Rightarrow>
                           (let instance = Status_SetConditions [ReconcileSuccess] instance
                            in \<lparr>res = result, err = Update r instance, obj = instance,
                                calls = got @ published @ [CallUpdate instance]\<rparr>))
                 else
                   after got
                     (fail r instance
                        (OtherError (''unexpected resource status: '' @ InstStatus db)))))"

text \<open>\<^verbatim>\<open>_delete\<close> (lines 188-200).\<close>

definition Reconciler_delete ::
  "'a Collaborators_scheme \<Rightarrow> RDSInstance \<Rightarrow> rds_Client \<Rightarrow> outcome" where
  "Reconciler_delete r instance client =
     (let instance = Status_SetConditions [Deleting] instance;
          deleted =
            (if ReclaimPolicy (Spec instance) = ReclaimDelete
             then [CallDeleteInstance (InstanceName (Status instance))] else []);
          derr =
            (if ReclaimPolicy (Spec instance) = ReclaimDelete
             then DeleteInstance client (InstanceName (Status instance)) else None)
      in case derr of
           Some e \<Rightarrow>
             if \<not> IsErrorNotFound e then after deleted (fail r instance e)
             else
               (let instance = RemoveFinalizer instance finalizer;
                    instance = Status_SetConditions [ReconcileSuccess] instance
                in \<lparr>res = result, err = Update r instance, obj = instance,
                    calls = deleted @ [CallUpdate instance]\<rparr>)
         | None \<Rightarrow>
             (let instance = RemoveFinalizer instance finalizer;
                  instance = Status_SetConditions [ReconcileSuccess] instance
              in \<lparr>res = result, err = Update r instance, obj = instance,
                  calls = deleted @ [CallUpdate instance]\<rparr>))"

text \<open>
  The branch of \<^verbatim>\<open>Reconcile\<close> (lines 240-251): delete, create or sync, from the
  record's fields alone.
\<close>

definition Reconcile_phase :: "Reconciler \<Rightarrow> RDSInstance \<Rightarrow> rds_Client \<Rightarrow> outcome" where
  "Reconcile_phase r instance rdsClient =
     (if DeletionTimestamp instance \<noteq> None then delete r instance rdsClient
      else if InstanceName (Status instance) = '''' then create r instance rdsClient
      else sync r instance rdsClient)"

text \<open>\<^verbatim>\<open>Reconcile\<close> (lines 204-252).\<close>

definition Reconcile :: "Reconciler \<Rightarrow> NamespacedName \<Rightarrow> outcome" where
  "Reconcile r request =
     (case Get r request of
        Inl e \<Rightarrow>
          if IsNotFound e
          then \<lparr>res = \<lparr>Requeue = False, RequeueAfter = 0\<rparr>, err = None,
                obj = RDSInstance_zero, calls = []\<rparr>
          else \<lparr>res = \<lparr>Requeue = False, RequeueAfter = 0\<rparr>, err = Some e,
                obj = RDSInstance_zero, calls = []\<rparr>
      | Inr instance \<Rightarrow>
          (case connect r instance of
             Inl e \<Rightarrow> fail r instance e
           | Inr rdsClient \<Rightarrow>
               if \<not> IsConditionTrue (RDSInstance_GetCondition instance TypeReferencesResolved) then
                 (case ResolveReferences r instance of
                    Some e \<Rightarrow>
                      (let condition =
                             (if IsReferencesAccessError e then ReferenceResolutionBlocked e
                              else ReconcileError e);
                           resolved = [CallResolveReferences instance];
                           instance = Status_SetConditions [condition] instance
                       in \<lparr>res = \<lparr>Requeue = False, RequeueAfter = aLongWait\<rparr>,
                           err = Wrap (Update r instance) errUpdateManagedStatus,
                           obj = instance, calls = resolved @ [CallUpdate instance]\<rparr>)
                  | None \<Rightarrow>
                      after [CallResolveReferences instance]
                        (Reconcile_phase r
                           (Status_SetConditions [ReferenceResolutionSuccess] instance) rdsClient))
               else Reconcile_phase r instance rdsClient))"

text \<open>
  \<^verbatim>\<open>SetupWithManager\<close> (lines 82-98): the reconciler as the controller runs it, its four
  function fields bound to its own methods.
\<close>

definition SetupWithManager :: "Collaborators \<Rightarrow> Reconciler" where
  "SetupWithManager c =
     Collaborators.extend c
       (Reconciler.fields (Reconciler_connect c) (Reconciler_create c)
          (Reconciler_sync c) (Reconciler_delete c))"

subsection \<open>Concrete inputs\<close>

text \<open>
  A record as an operator first writes it, the same record once provisioned, a provider
  that accepts every call and reports the database available, and collaborators that
  never fail. The examples below vary them by record update.
\<close>

definition example_instance :: RDSInstance where
  "example_instance =
     \<lparr>UID = ''7f3c'', DeletionTimestamp = None, Finalizers = [],
      Spec = \<lparr>Engine = ''mysql'', MasterUsername = ''admin'', ReclaimPolicy = ''Delete'',
              ProviderReference = ''aws''\<rparr>,
      Status = \<lparr>Conditions = [], Bindable = False, State = [], Endpoint = [],
                ProviderID = [], InstanceName = []\<rparr>\<rparr>"

definition example_provisioned :: RDSInstance where
  "example_provisioned =
     \<lparr>UID = ''7f3c'', DeletionTimestamp = None, Finalizers = [finalizer],
      Spec = \<lparr>Engine = ''mysql'', MasterUsername = ''admin'', ReclaimPolicy = ''Delete'',
              ProviderReference = ''aws''\<rparr>,
      Status = \<lparr>Conditions = [ReferenceResolutionSuccess, Creating, ReconcileSuccess],
                Bindable = False, State = ''creating'', Endpoint = [],
                ProviderID = [], InstanceName = ''mysql-7f3c''\<rparr>\<rparr>"

definition example_db :: "string \<Rightarrow> rds_Instance" where
  "example_db status =
     \<lparr>InstName = ''mysql-7f3c'', ARN = ''arn:aws:rds:mysql-7f3c'', InstStatus = status,
      InstEndpoint = ''mysql-7f3c.example.com''\<rparr>"

definition example_client :: rds_Client where
  "example_client =
     \<lparr>CreateInstance = (\<lambda>name password spec. None),
      GetInstance = (\<lambda>name. Inr (example_db ''available'')),
      DeleteInstance = (\<lambda>name. None)\<rparr>"

definition example_collaborators :: Collaborators where
  "example_collaborators =
     \<lparr>Get = (\<lambda>key. Inr example_instance),
      Update = (\<lambda>instance. None),
      ResolveReferences = (\<lambda>instance. None),
      PublishConnection = (\<lambda>instance details. None),
      GeneratePassword = (\<lambda>n. Inr ''0123456789abcdefghij''),
      RetrieveAwsConfigFromProvider = (\<lambda>ref. Inr ''eu-west-1''),
      NewClient = (\<lambda>config. example_client)\<rparr>"

text \<open>The provisioned record once its deletion is asked for, under either reclaim policy.\<close>

definition example_deleting :: RDSInstance where
  "example_deleting = example_provisioned\<lparr>DeletionTimestamp := Some 1700000000\<rparr>"

definition example_retained :: RDSInstance where
  "example_retained =
     example_deleting\<lparr>Spec := (Spec example_deleting)\<lparr>ReclaimPolicy := ''Retain''\<rparr>\<rparr>"

text \<open>
  The record a create phase that goes through has built when it persists it (lines
  117 and 144-146 applied to the record handed in).
\<close>

definition created_record :: "RDSInstance \<Rightarrow> RDSInstance" where
  "created_record i =
     Status_SetConditions [ReconcileSuccess]
       (AddFinalizer
          ((Status_SetConditions [Creating] i)
             \<lparr>Status := (Status (Status_SetConditions [Creating] i))
                \<lparr>InstanceName := Engine (Spec i) @ ''-'' @ UID i\<rparr>\<rparr>)
          finalizer)"

text \<open>
  The record of a sync phase once the provider's answer is saved in its status (lines
  158-161).
\<close>

definition observed :: "RDSInstance \<Rightarrow> rds_Instance \<Rightarrow> RDSInstance" where
  "observed i db =
     i\<lparr>Status := (Status i)
         \<lparr>State := InstStatus db, Endpoint := InstEndpoint db, ProviderID := ARN db\<rparr>\<rparr>"

text \<open>
  The same records when another controller holds a finalizer of its own on them, next
  to the owned one where that has been added.
\<close>

definition example_shared :: RDSInstance where
  "example_shared = example_instance\<lparr>Finalizers := [''finalizer.backup.example.io'']\<rparr>"

definition example_shared_deleting :: RDSInstance where
  "example_shared_deleting =
     example_deleting\<lparr>Finalizers := [''finalizer.backup.example.io'', finalizer]\<rparr>"

definition example_shared_retained :: RDSInstance where
  "example_shared_retained =
     example_retained\<lparr>Finalizers := [''finalizer.backup.example.io'', finalizer]\<rparr>"

text \<open>
  A record store holding the provisioned record, the record being deleted and the fresh
  record under three keys; collaborators over that store whose provider configuration
  cannot be retrieved; the provisioned record before its references were resolved, and
  collaborators whose resolver fails on it.
\<close>

definition example_store :: "NamespacedName \<Rightarrow> error + RDSInstance" where
  "example_store key =
     (if key = ''default/db'' then Inr example_provisioned
      else if key = ''default/old'' then Inr example_deleting
      else if key = ''default/new'' then Inr example_instance
      else Inl (KubeNotFound ''not found''))"

definition example_unreachable :: Collaborators where
  "example_unreachable =
     example_collaborators
       \<lparr>Get := example_store,
        RetrieveAwsConfigFromProvider := \<lambda>ref. Inl (OtherError ''no provider'')\<rparr>"

definition example_unresolved :: RDSInstance where
  "example_unresolved =
     example_provisioned\<lparr>Status := (Status example_provisioned)\<lparr>Conditions := []\<rparr>\<rparr>"

definition example_blocked :: Collaborators where
  "example_blocked =
     example_collaborators
       \<lparr>Get := \<lambda>key. Inr example_unresolved,
        ResolveReferences := \<lambda>i. Some (OtherError ''claim not bound'')\<rparr>"

section \<open>Properties\<close>

subsection \<open>Conditions: last write wins per type\<close>

lemma SetCondition_mem: "c \<in> set (SetCondition c cs)"
  by (induction cs) (auto simp: SetCondition_def)

lemma SetCondition_cases:
  assumes "x \<in> set (SetCondition c cs)"
  shows "x = c \<or> (x \<in> set cs \<and> Type x \<noteq> Type c)"
proof (cases "Type c \<in> Type ` set cs")
  case True
  with assms show ?thesis by (auto simp: SetCondition_def)
next
  case False
  with assms have "x \<in> set cs \<or> x = c" by (auto simp: SetCondition_def)
  moreover have "Type x \<noteq> Type c" if "x \<in> set cs"
    using False that by (metis imageI)
  ultimately show ?thesis by blast
qed

lemma SetCondition_keeps:
  "x \<in> set cs \<Longrightarrow> Type x \<noteq> Type c \<Longrightarrow> x \<in> set (SetCondition c cs)"
  by (auto simp: SetCondition_def)

lemma find_SetCondition: "find (\<lambda>x. Type x = Type c) (SetCondition c cs) = Some c"
  by (induction cs) (auto simp: SetCondition_def split: if_splits)

lemma SetConditions_Nil: "SetConditions [] cs = cs"
  by (simp add: SetConditions_def)

lemma SetConditions_Cons: "SetConditions (c # new) cs = SetConditions new (SetCondition c cs)"
  by (simp add: SetConditions_def)

lemma cond_types:
  "Type Creating = TypeReady" "Type Available = TypeReady" "Type Unavailable = TypeReady"
  "Type Deleting = TypeReady" "Type ReconcileSuccess = TypeSynced"
  "Type (ReconcileError e) = TypeSynced"
  "Type ReferenceResolutionSuccess = TypeReferencesResolved"
  "Type (ReferenceResolutionBlocked e) = TypeReferencesResolved"
  by (simp_all add: Creating_def Available_def Unavailable_def Deleting_def ReconcileSuccess_def
      ReconcileError_def ReferenceResolutionSuccess_def ReferenceResolutionBlocked_def)

lemma ReconcileError_neq_Success: "ReconcileError e \<noteq> ReconcileSuccess"
  by (simp add: ReconcileError_def ReconcileSuccess_def)

text \<open>Setting conditions touches the condition list and nothing else of the record.\<close>

lemma Status_SetConditions_simps:
  "UID (Status_SetConditions new i) = UID i"
  "DeletionTimestamp (Status_SetConditions new i) = DeletionTimestamp i"
  "Finalizers (Status_SetConditions new i) = Finalizers i"
  "Spec (Status_SetConditions new i) = Spec i"
  "InstanceName (Status (Status_SetConditions new i)) = InstanceName (Status i)"
  "Bindable (Status (Status_SetConditions new i)) = Bindable (Status i)"
  "State (Status (Status_SetConditions new i)) = State (Status i)"
  "Endpoint (Status (Status_SetConditions new i)) = Endpoint (Status i)"
  "ProviderID (Status (Status_SetConditions new i)) = ProviderID (Status i)"
  "Conditions (Status (Status_SetConditions new i)) = SetConditions new (Conditions (Status i))"
  by (simp_all add: Status_SetConditions_def)

text \<open>What one and two conditions set in a row leave in the list.\<close>

lemma set_one:
  "c \<in> set (Conditions (Status (Status_SetConditions [c] i)))"
  by (simp add: Status_SetConditions_simps SetConditions_Cons SetConditions_Nil SetCondition_mem)

lemma set_two:
  assumes "Type c \<noteq> Type d"
  shows "c \<in> set (Conditions (Status (Status_SetConditions [c, d] i)))"
    and "d \<in> set (Conditions (Status (Status_SetConditions [c, d] i)))"
  using assms
  by (simp_all add: Status_SetConditions_simps SetConditions_Cons SetConditions_Nil
      SetCondition_mem SetCondition_keeps)

lemma set_kept:
  "c \<in> set (Conditions (Status i)) \<Longrightarrow> Type c \<noteq> Type d \<Longrightarrow>
   c \<in> set (Conditions (Status (Status_SetConditions [d] i)))"
  by (simp add: Status_SetConditions_simps SetConditions_Cons SetConditions_Nil SetCondition_keeps)

lemma set_ReconcileSuccess_no_error:
  "ReconcileError e \<notin> set (Conditions (Status (Status_SetConditions [ReconcileSuccess] i)))"
proof
  assume "ReconcileError e \<in> set (Conditions (Status (Status_SetConditions [ReconcileSuccess] i)))"
  then have "ReconcileError e \<in> set (SetCondition ReconcileSuccess (Conditions (Status i)))"
    by (simp add: Status_SetConditions_simps SetConditions_Cons SetConditions_Nil)
  then have "ReconcileError e = ReconcileSuccess \<or> Type (ReconcileError e) \<noteq> Type ReconcileSuccess"
    by (blast dest: SetCondition_cases)
  then show False
    by (simp add: cond_types ReconcileError_neq_Success)
qed

subsection \<open>The helpers \<open>fail\<close> and \<open>after\<close>\<close>

lemma fail_simps:
  "res (fail r i e) = resultRequeue"
  "obj (fail r i e) = Status_SetConditions [ReconcileError e] i"
  "err (fail r i e) = Update r (Status_SetConditions [ReconcileError e] i)"
  "calls (fail r i e) = [CallUpdate (Status_SetConditions [ReconcileError e] i)]"
  by (simp_all add: fail_def resultRequeue_def Let_def)

lemma after_simps:
  "res (after evs out) = res out"
  "obj (after evs out) = obj out"
  "err (after evs out) = err out"
  "calls (after evs out) = evs @ calls out"
  by (simp_all add: after_def)

lemma after_Nil: "after [] out = out"
  by (simp add: after_def)

subsection \<open>The reconciler as the controller wires it\<close>

lemma SetupWithManager_simps:
  "Get (SetupWithManager c) = Get c"
  "Update (SetupWithManager c) = Update c"
  "ResolveReferences (SetupWithManager c) = ResolveReferences c"
  "PublishConnection (SetupWithManager c) = PublishConnection c"
  "connect (SetupWithManager c) = Reconciler_connect c"
  "create (SetupWithManager c) = Reconciler_create c"
  "sync (SetupWithManager c) = Reconciler_sync c"
  "delete (SetupWithManager c) = Reconciler_delete c"
  by (simp_all add: SetupWithManager_def Collaborators.defs Reconciler.defs)

lemma fail_SetupWithManager: "fail (SetupWithManager c) = fail c"
  by (simp add: fun_eq_iff fail_def SetupWithManager_simps)

lemma example_connect:
  "Reconciler_connect (example_collaborators\<lparr>Get := g\<rparr>) i = Inr example_client"
  by (simp add: Reconciler_connect_def example_collaborators_def)

subsection \<open>The record is gone\<close>

text \<open>
  C9. When the record store's get reports NotFound, \<open>Reconcile\<close> returns the empty
  result and no error, and has done nothing: no collaborator call was made (no
  provider call, no publish, no persist), and the record it holds is the zero value,
  with no condition set.
\<close>

theorem Reconcile_not_found:
  assumes "Get r request = Inl e" and "IsNotFound e"
  shows "Reconcile r request =
           \<lparr>res = \<lparr>Requeue = False, RequeueAfter = 0\<rparr>, err = None,
            obj = RDSInstance_zero, calls = []\<rparr>"
  using assms by (simp add: Reconcile_def)

theorem Reconcile_not_found_example:
  "Reconcile
     (SetupWithManager (example_collaborators\<lparr>Get := \<lambda>key. Inl (KubeNotFound ''gone'')\<rparr>))
     ''default/db'' =
   \<lparr>res = \<lparr>Requeue = False, RequeueAfter = 0\<rparr>, err = None,
    obj = RDSInstance_zero, calls = []\<rparr>"
proof -
  have g: "Get (SetupWithManager (example_collaborators\<lparr>Get := \<lambda>key. Inl (KubeNotFound ''gone'')\<rparr>))
             ''default/db'' = Inl (KubeNotFound ''gone'')"
    by (simp add: SetupWithManager_simps)
  have n: "IsNotFound (KubeNotFound ''gone'')"
    by simp
  show ?thesis
    by (rule Reconcile_not_found[OF g n])
qed

subsection \<open>The delete phase\<close>

text \<open>The record a delete phase leaves when it goes through, and its outcome.\<close>

lemma delete_done_record:
  fixes i :: RDSInstance
  defines "final \<equiv> Status_SetConditions [ReconcileSuccess]
                    (RemoveFinalizer (Status_SetConditions [Deleting] i) finalizer)"
  shows "finalizer \<notin> set (Finalizers final)"
    and "Deleting \<in> set (Conditions (Status final))"
    and "ReconcileSuccess \<in> set (Conditions (Status final))"
    and "ReconcileError e \<notin> set (Conditions (Status final))"
    and "DeletionTimestamp final = DeletionTimestamp i"
proof -
  show "finalizer \<notin> set (Finalizers final)"
    by (simp add: final_def Status_SetConditions_simps RemoveFinalizer_def)
  have "Deleting \<in> set (Conditions (Status
          (RemoveFinalizer (Status_SetConditions [Deleting] i) finalizer)))"
    using set_one[of Deleting i] by (simp add: RemoveFinalizer_def)
  then show "Deleting \<in> set (Conditions (Status final))"
    unfolding final_def by (rule set_kept) (simp add: cond_types)
  show "ReconcileSuccess \<in> set (Conditions (Status final))"
    unfolding final_def by (rule set_one)
  show "ReconcileError e \<notin> set (Conditions (Status final))"
    unfolding final_def by (rule set_ReconcileSuccess_no_error)
  show "DeletionTimestamp final = DeletionTimestamp i"
    by (simp add: final_def Status_SetConditions_simps RemoveFinalizer_def)
qed

lemma delete_skipped:
  assumes "ReclaimPolicy (Spec instance) \<noteq> ReclaimDelete"
  shows "Reconciler_delete r instance client =
           \<lparr>res = result,
            err = Update r (Status_SetConditions [ReconcileSuccess]
                    (RemoveFinalizer (Status_SetConditions [Deleting] instance) finalizer)),
            obj = Status_SetConditions [ReconcileSuccess]
                    (RemoveFinalizer (Status_SetConditions [Deleting] instance) finalizer),
            calls = [CallUpdate (Status_SetConditions [ReconcileSuccess]
                    (RemoveFinalizer (Status_SetConditions [Deleting] instance) finalizer))]\<rparr>"
  using assms by (simp add: Reconciler_delete_def Let_def Status_SetConditions_simps)

lemma delete_went_through:
  assumes "ReclaimPolicy (Spec instance) = ReclaimDelete"
    and "DeleteInstance client (InstanceName (Status instance)) = None
         \<or> (\<exists>e. DeleteInstance client (InstanceName (Status instance)) = Some e \<and> IsErrorNotFound e)"
  shows "Reconciler_delete r instance client =
           \<lparr>res = result,
            err = Update r (Status_SetConditions [ReconcileSuccess]
                    (RemoveFinalizer (Status_SetConditions [Deleting] instance) finalizer)),
            obj = Status_SetConditions [ReconcileSuccess]
                    (RemoveFinalizer (Status_SetConditions [Deleting] instance) finalizer),
            calls = [CallDeleteInstance (InstanceName (Status instance)),
                     CallUpdate (Status_SetConditions [ReconcileSuccess]
                    (RemoveFinalizer (Status_SetConditions [Deleting] instance) finalizer))]\<rparr>"
  using assms by (auto simp: Reconciler_delete_def Let_def Status_SetConditions_simps)

lemma delete_failed:
  assumes "ReclaimPolicy (Spec instance) = ReclaimDelete"
    and "DeleteInstance client (InstanceName (Status instance)) = Some e"
    and "\<not> IsErrorNotFound e"
  shows "Reconciler_delete r instance client =
           after [CallDeleteInstance (InstanceName (Status instance))]
             (fail r (Status_SetConditions [Deleting] instance) e)"
  using assms by (simp add: Reconciler_delete_def Let_def Status_SetConditions_simps)

lemma delete_done_exact:
  "Status_SetConditions [ReconcileSuccess]
     (RemoveFinalizer (Status_SetConditions [Deleting] i) finalizer) =
   i\<lparr>Finalizers := removeAll finalizer (Finalizers i),
     Status := (Status i)
       \<lparr>Conditions := SetConditions [ReconcileSuccess]
          (SetConditions [Deleting] (Conditions (Status i)))\<rparr>\<rparr>"
  "Finalizers (Status_SetConditions [ReconcileSuccess]
     (RemoveFinalizer (Status_SetConditions [Deleting] i) finalizer)) =
   removeAll finalizer (Finalizers i)"
  by (simp_all add: Status_SetConditions_def RemoveFinalizer_def)

text \<open>
  C6. Under the reclaim policy Retain the delete phase makes one collaborator call, the
  persist of the record it returns: the provider's delete is not called. That record is
  the record handed in with two changes and no other: every occurrence of the owned
  finalizer is taken out of its finalizers, the others staying in place and in order,
  and the Deleting and then the ReconcileSuccess condition are set in its condition
  list. So it has lost the owned finalizer and carries both conditions. The result asks
  for no requeue, and the error returned is the persist's.
\<close>

theorem delete_retain:
  assumes "ReclaimPolicy (Spec instance) = ReclaimRetain"
  shows "calls (Reconciler_delete r instance client) =
           [CallUpdate (obj (Reconciler_delete r instance client))]
       \<and> (\<forall>n. CallDeleteInstance n \<notin> set (calls (Reconciler_delete r instance client)))
       \<and> finalizer \<notin> set (Finalizers (obj (Reconciler_delete r instance client)))
       \<and> Deleting \<in> set (Conditions (Status (obj (Reconciler_delete r instance client))))
       \<and> ReconcileSuccess \<in> set (Conditions (Status (obj (Reconciler_delete r instance client))))
       \<and> err (Reconciler_delete r instance client) =
           Update r (obj (Reconciler_delete r instance client))
       \<and> res (Reconciler_delete r instance client) = \<lparr>Requeue = False, RequeueAfter = 0\<rparr>
       \<and> Finalizers (obj (Reconciler_delete r instance client)) =
           removeAll finalizer (Finalizers instance)
       \<and> obj (Reconciler_delete r instance client) =
           instance
             \<lparr>Finalizers := removeAll finalizer (Finalizers instance),
              Status := (Status instance)
                \<lparr>Conditions := SetConditions [ReconcileSuccess]
                   (SetConditions [Deleting] (Conditions (Status instance)))\<rparr>\<rparr>"
proof -
  have "ReclaimPolicy (Spec instance) \<noteq> ReclaimDelete"
    using assms by (simp add: ReclaimRetain_def ReclaimDelete_def)
  note out = delete_skipped[OF this, of r client]
  show ?thesis
    unfolding out
    using delete_done_record(1-3)[where i = "instance"] delete_done_exact[where i = "instance"]
    by (simp add: result_def)
qed

theorem delete_retain_example:
  "ReclaimPolicy (Spec example_shared_retained) = ReclaimRetain
   \<and> Finalizers example_shared_retained = [''finalizer.backup.example.io'', finalizer]
   \<and> calls (Reconciler_delete example_collaborators example_shared_retained example_client) =
       [CallUpdate (obj (Reconciler_delete example_collaborators example_shared_retained
          example_client))]
   \<and> (\<forall>n. CallDeleteInstance n
          \<notin> set (calls (Reconciler_delete example_collaborators example_shared_retained
                 example_client)))
   \<and> Finalizers (obj (Reconciler_delete example_collaborators example_shared_retained
         example_client)) = [''finalizer.backup.example.io'']
   \<and> Deleting
       \<in> set (Conditions (Status (obj (Reconciler_delete example_collaborators
                 example_shared_retained example_client))))
   \<and> ReconcileSuccess
       \<in> set (Conditions (Status (obj (Reconciler_delete example_collaborators
                 example_shared_retained example_client))))
   \<and> err (Reconciler_delete example_collaborators example_shared_retained example_client) =
       Update example_collaborators
         (obj (Reconciler_delete example_collaborators example_shared_retained example_client))
   \<and> res (Reconciler_delete example_collaborators example_shared_retained example_client) =
       \<lparr>Requeue = False, RequeueAfter = 0\<rparr>"
proof -
  have p: "ReclaimPolicy (Spec example_shared_retained) = ReclaimRetain"
    by (simp add: example_shared_retained_def example_retained_def ReclaimRetain_def)
  have f: "Finalizers example_shared_retained = [''finalizer.backup.example.io'', finalizer]"
    by (simp add: example_shared_retained_def)
  have k: "removeAll finalizer [''finalizer.backup.example.io'', finalizer] =
             [''finalizer.backup.example.io'']"
    by (simp add: finalizer_def controllerName_def)
  have e: "Finalizers (obj (Reconciler_delete example_collaborators example_shared_retained
         example_client)) = removeAll finalizer (Finalizers example_shared_retained)"
    using delete_retain[OF p, of example_collaborators example_client] by blast
  have "Finalizers (obj (Reconciler_delete example_collaborators example_shared_retained
         example_client)) = [''finalizer.backup.example.io'']"
    by (simp only: e f k)
  with p f delete_retain[OF p, of example_collaborators example_client] show ?thesis
    by blast
qed

text \<open>
  C7. Under the reclaim policy Delete the provider's delete is called with the instance
  name. When it reports NotFound the phase goes on as on success: the record returned is
  the record handed in with every occurrence of the owned finalizer taken out of its
  finalizers, the others staying in place and in order, and with the Deleting and then
  the ReconcileSuccess condition set, and nothing else changed; it carries no
  ReconcileError condition, and no requeue is asked for. Any other error of the
  provider's delete sets the Deleting and then the ReconcileError condition of that
  error and changes nothing else, so the finalizers are as they were, and an immediate
  requeue is asked for. Either way the record is persisted once, after the provider
  call.
\<close>

theorem delete_policy_Delete:
  assumes "ReclaimPolicy (Spec instance) = ReclaimDelete"
    and "DeleteInstance client (InstanceName (Status instance)) = Some e"
  shows "(IsErrorNotFound e \<longrightarrow>
            finalizer \<notin> set (Finalizers (obj (Reconciler_delete r instance client)))
          \<and> ReconcileSuccess \<in> set (Conditions (Status (obj (Reconciler_delete r instance client))))
          \<and> (\<forall>e'. ReconcileError e'
                 \<notin> set (Conditions (Status (obj (Reconciler_delete r instance client)))))
          \<and> res (Reconciler_delete r instance client) = \<lparr>Requeue = False, RequeueAfter = 0\<rparr>
          \<and> Finalizers (obj (Reconciler_delete r instance client)) =
              removeAll finalizer (Finalizers instance)
          \<and> obj (Reconciler_delete r instance client) =
              instance
                \<lparr>Finalizers := removeAll finalizer (Finalizers instance),
                 Status := (Status instance)
                   \<lparr>Conditions := SetConditions [ReconcileSuccess]
                      (SetConditions [Deleting] (Conditions (Status instance)))\<rparr>\<rparr>)
       \<and> (\<not> IsErrorNotFound e \<longrightarrow>
            ReconcileError e \<in> set (Conditions (Status (obj (Reconciler_delete r instance client))))
          \<and> Finalizers (obj (Reconciler_delete r instance client)) = Finalizers instance
          \<and> res (Reconciler_delete r instance client) = \<lparr>Requeue = True, RequeueAfter = 0\<rparr>
          \<and> obj (Reconciler_delete r instance client) =
              instance
                \<lparr>Status := (Status instance)
                   \<lparr>Conditions := SetConditions [ReconcileError e]
                      (SetConditions [Deleting] (Conditions (Status instance)))\<rparr>\<rparr>)
       \<and> calls (Reconciler_delete r instance client) =
           [CallDeleteInstance (InstanceName (Status instance)),
            CallUpdate (obj (Reconciler_delete r instance client))]
       \<and> err (Reconciler_delete r instance client) =
           Update r (obj (Reconciler_delete r instance client))"
proof (cases "IsErrorNotFound e")
  case True
  with assms(2)
  have "DeleteInstance client (InstanceName (Status instance)) = None
        \<or> (\<exists>e. DeleteInstance client (InstanceName (Status instance)) = Some e \<and> IsErrorNotFound e)"
    by blast
  note out = delete_went_through[OF assms(1) this, of r]
  show ?thesis
    unfolding out
    using True delete_done_record(1,3,4)[where i = "instance"]
      delete_done_exact[where i = "instance"]
    by (simp add: result_def)
next
  case False
  note out = delete_failed[OF assms False, of r]
  have "ReconcileError e
          \<in> set (Conditions (Status (Status_SetConditions [ReconcileError e]
                   (Status_SetConditions [Deleting] instance))))"
    by (rule set_one)
  moreover have "Status_SetConditions [ReconcileError e] (Status_SetConditions [Deleting] instance) =
      instance
        \<lparr>Status := (Status instance)
           \<lparr>Conditions := SetConditions [ReconcileError e]
              (SetConditions [Deleting] (Conditions (Status instance)))\<rparr>\<rparr>"
    by (simp add: Status_SetConditions_def)
  ultimately show ?thesis
    unfolding out using False
    by (simp add: after_simps fail_simps Status_SetConditions_simps resultRequeue_def)
qed

theorem delete_policy_Delete_example:
  "ReclaimPolicy (Spec example_shared_deleting) = ReclaimDelete
   \<and> DeleteInstance (example_client\<lparr>DeleteInstance := \<lambda>name. Some (RDSNotFound ''no such db'')\<rparr>)
       (InstanceName (Status example_shared_deleting)) = Some (RDSNotFound ''no such db'')
   \<and> IsErrorNotFound (RDSNotFound ''no such db'')
   \<and> Finalizers example_shared_deleting = [''finalizer.backup.example.io'', finalizer]
   \<and> Finalizers (obj (Reconciler_delete example_collaborators example_shared_deleting
         (example_client\<lparr>DeleteInstance := \<lambda>name. Some (RDSNotFound ''no such db'')\<rparr>))) =
       [''finalizer.backup.example.io'']
   \<and> ReconcileSuccess \<in> set (Conditions (Status (obj (Reconciler_delete example_collaborators
         example_shared_deleting
         (example_client\<lparr>DeleteInstance := \<lambda>name. Some (RDSNotFound ''no such db'')\<rparr>)))))
   \<and> res (Reconciler_delete example_collaborators example_shared_deleting
         (example_client\<lparr>DeleteInstance := \<lambda>name. Some (RDSNotFound ''no such db'')\<rparr>)) =
       \<lparr>Requeue = False, RequeueAfter = 0\<rparr>
   \<and> calls (Reconciler_delete example_collaborators example_shared_deleting
         (example_client\<lparr>DeleteInstance := \<lambda>name. Some (RDSNotFound ''no such db'')\<rparr>)) =
       [CallDeleteInstance ''mysql-7f3c'',
        CallUpdate (obj (Reconciler_delete example_collaborators example_shared_deleting
         (example_client\<lparr>DeleteInstance := \<lambda>name. Some (RDSNotFound ''no such db'')\<rparr>)))]"
proof -
  have p: "ReclaimPolicy (Spec example_shared_deleting) = ReclaimDelete"
    by (simp add: example_shared_deleting_def example_deleting_def example_provisioned_def
        ReclaimDelete_def)
  have d: "DeleteInstance (example_client\<lparr>DeleteInstance := \<lambda>name. Some (RDSNotFound ''no such db'')\<rparr>)
             (InstanceName (Status example_shared_deleting)) = Some (RDSNotFound ''no such db'')"
    by simp
  have n: "IsErrorNotFound (RDSNotFound ''no such db'')"
    by simp
  have name: "InstanceName (Status example_shared_deleting) = ''mysql-7f3c''"
    by (simp add: example_shared_deleting_def example_deleting_def example_provisioned_def)
  have f: "Finalizers example_shared_deleting = [''finalizer.backup.example.io'', finalizer]"
    by (simp add: example_shared_deleting_def)
  have k: "removeAll finalizer [''finalizer.backup.example.io'', finalizer] =
             [''finalizer.backup.example.io'']"
    by (simp add: finalizer_def controllerName_def)
  have e: "Finalizers (obj (Reconciler_delete example_collaborators example_shared_deleting
         (example_client\<lparr>DeleteInstance := \<lambda>name. Some (RDSNotFound ''no such db'')\<rparr>))) =
       removeAll finalizer (Finalizers example_shared_deleting)"
    using delete_policy_Delete[OF p d, of example_collaborators] n by blast
  have "Finalizers (obj (Reconciler_delete example_collaborators example_shared_deleting
         (example_client\<lparr>DeleteInstance := \<lambda>name. Some (RDSNotFound ''no such db'')\<rparr>))) =
       [''finalizer.backup.example.io'']"
    by (simp only: e f k)
  with p d n f delete_policy_Delete[OF p d, of example_collaborators] show ?thesis
    unfolding name by blast
qed

subsection \<open>The create phase\<close>

text \<open>The five ways through \<open>Reconciler_create\<close>, each with its outcome.\<close>

lemma create_password_failed:
  assumes "GeneratePassword r 20 = Inl e"
  shows "Reconciler_create r i client = fail r (Status_SetConditions [Creating] i) e"
  using assms by (simp add: Reconciler_create_def Let_def)

lemma create_provider_failed:
  assumes "GeneratePassword r 20 = Inr password"
    and "CreateInstance client (Engine (Spec i) @ ''-'' @ UID i) password (Spec i) = Some e"
    and "\<not> IsErrorAlreadyExists (Some e)"
  shows "Reconciler_create r i client =
           after [CallCreateInstance (Engine (Spec i) @ ''-'' @ UID i) password (Spec i)]
             (fail r (Status_SetConditions [Creating] i) e)"
  using assms by (simp add: Reconciler_create_def Let_def Ignore_def Status_SetConditions_simps)

lemma create_existed:
  assumes "GeneratePassword r 20 = Inr password"
    and "IsErrorAlreadyExists
           (CreateInstance client (Engine (Spec i) @ ''-'' @ UID i) password (Spec i))"
  shows "Reconciler_create r i client =
           \<lparr>res = resultRequeue, err = Update r (created_record i), obj = created_record i,
            calls = [CallCreateInstance (Engine (Spec i) @ ''-'' @ UID i) password (Spec i),
                     CallUpdate (created_record i)]\<rparr>"
  using assms
  by (simp add: Reconciler_create_def Let_def Ignore_def Status_SetConditions_simps
      created_record_def)

lemma create_publish_failed:
  assumes "GeneratePassword r 20 = Inr password"
    and "CreateInstance client (Engine (Spec i) @ ''-'' @ UID i) password (Spec i) = None"
    and "PublishConnection r (Status_SetConditions [Creating] i)
           [(ResourceCredentialsSecretUserKey, MasterUsername (Spec i)),
            (ResourceCredentialsSecretPasswordKey, password)] = Some e"
  shows "Reconciler_create r i client =
           after [CallCreateInstance (Engine (Spec i) @ ''-'' @ UID i) password (Spec i),
                  CallPublishConnection (Status_SetConditions [Creating] i)
                    [(ResourceCredentialsSecretUserKey, MasterUsername (Spec i)),
                     (ResourceCredentialsSecretPasswordKey, password)]]
             (fail r (Status_SetConditions [Creating] i) e)"
  using assms by (simp add: Reconciler_create_def Let_def Ignore_def Status_SetConditions_simps)

lemma create_published:
  assumes "GeneratePassword r 20 = Inr password"
    and "CreateInstance client (Engine (Spec i) @ ''-'' @ UID i) password (Spec i) = None"
    and "PublishConnection r (Status_SetConditions [Creating] i)
           [(ResourceCredentialsSecretUserKey, MasterUsername (Spec i)),
            (ResourceCredentialsSecretPasswordKey, password)] = None"
  shows "Reconciler_create r i client =
           \<lparr>res = resultRequeue, err = Update r (created_record i), obj = created_record i,
            calls = [CallCreateInstance (Engine (Spec i) @ ''-'' @ UID i) password (Spec i),
                     CallPublishConnection (Status_SetConditions [Creating] i)
                       [(ResourceCredentialsSecretUserKey, MasterUsername (Spec i)),
                        (ResourceCredentialsSecretPasswordKey, password)],
                     CallUpdate (created_record i)]\<rparr>"
  using assms
  by (simp add: Reconciler_create_def Let_def Ignore_def Status_SetConditions_simps
      created_record_def)

text \<open>Every way through ends in one of two records, and persists it last.\<close>

lemma create_obj_cases:
  "(\<exists>e. obj (Reconciler_create r i client) =
          Status_SetConditions [ReconcileError e] (Status_SetConditions [Creating] i))
   \<or> obj (Reconciler_create r i client) = created_record i"
proof (cases "GeneratePassword r 20")
  case (Inl e)
  then show ?thesis
    by (auto simp: create_password_failed fail_simps)
next
  case (Inr password)
  show ?thesis
  proof (cases "CreateInstance client (Engine (Spec i) @ ''-'' @ UID i) password (Spec i)")
    case None
    show ?thesis
    proof (cases "PublishConnection r (Status_SetConditions [Creating] i)
           [(ResourceCredentialsSecretUserKey, MasterUsername (Spec i)),
            (ResourceCredentialsSecretPasswordKey, password)]")
      case None
      from create_published[OF Inr \<open>CreateInstance client _ password _ = None\<close> None]
      show ?thesis by simp
    next
      case (Some e)
      from create_publish_failed[OF Inr None Some]
      show ?thesis by (auto simp: after_simps fail_simps)
    qed
  next
    case (Some e)
    show ?thesis
    proof (cases "IsErrorAlreadyExists (Some e)")
      case True
      with Some create_existed[OF Inr, of client i] show ?thesis by simp
    next
      case False
      from create_provider_failed[OF Inr Some False]
      show ?thesis by (auto simp: after_simps fail_simps)
    qed
  qed
qed

lemma create_persists_last:
  "\<exists>before. calls (Reconciler_create r i client) =
             before @ [CallUpdate (obj (Reconciler_create r i client))]
           \<and> (\<forall>x. CallUpdate x \<notin> set before)"
proof (cases "GeneratePassword r 20")
  case (Inl e)
  then show ?thesis
    by (simp add: create_password_failed fail_simps)
next
  case (Inr password)
  show ?thesis
  proof (cases "CreateInstance client (Engine (Spec i) @ ''-'' @ UID i) password (Spec i)")
    case None
    show ?thesis
    proof (cases "PublishConnection r (Status_SetConditions [Creating] i)
           [(ResourceCredentialsSecretUserKey, MasterUsername (Spec i)),
            (ResourceCredentialsSecretPasswordKey, password)]")
      case None
      from create_published[OF Inr \<open>CreateInstance client _ password _ = None\<close> None]
      show ?thesis by simp
    next
      case (Some e)
      from create_publish_failed[OF Inr None Some]
      show ?thesis by (simp add: after_simps fail_simps)
    qed
  next
    case (Some e)
    show ?thesis
    proof (cases "IsErrorAlreadyExists (Some e)")
      case True
      with Some create_existed[OF Inr, of client i] show ?thesis by simp
    next
      case False
      from create_provider_failed[OF Inr Some False]
      show ?thesis by (simp add: after_simps fail_simps)
    qed
  qed
qed

lemma created_record_simps:
  "InstanceName (Status (created_record i)) = Engine (Spec i) @ ''-'' @ UID i"
  "DeletionTimestamp (created_record i) = DeletionTimestamp i"
  "finalizer \<in> set (Finalizers (created_record i))"
  by (simp_all add: created_record_def Status_SetConditions_simps AddFinalizer_def)

lemma created_record_conditions:
  "ReconcileSuccess \<in> set (Conditions (Status (created_record i)))"
  "Creating \<in> set (Conditions (Status (created_record i)))"
  "ReconcileError e \<notin> set (Conditions (Status (created_record i)))"
proof -
  show "ReconcileSuccess \<in> set (Conditions (Status (created_record i)))"
    unfolding created_record_def by (rule set_one)
  have "Creating \<in> set (Conditions (Status
          (AddFinalizer
             ((Status_SetConditions [Creating] i)
                \<lparr>Status := (Status (Status_SetConditions [Creating] i))
                   \<lparr>InstanceName := Engine (Spec i) @ ''-'' @ UID i\<rparr>\<rparr>)
             finalizer)))"
    using set_one[of Creating i] by (simp add: AddFinalizer_def)
  then show "Creating \<in> set (Conditions (Status (created_record i)))"
    unfolding created_record_def by (rule set_kept) (simp add: cond_types)
  show "ReconcileError e \<notin> set (Conditions (Status (created_record i)))"
    unfolding created_record_def by (rule set_ReconcileSuccess_no_error)
qed

lemma failed_create_conditions:
  "Creating \<in> set (Conditions (Status
     (Status_SetConditions [ReconcileError e] (Status_SetConditions [Creating] i))))"
  "ReconcileError e \<in> set (Conditions (Status
     (Status_SetConditions [ReconcileError e] (Status_SetConditions [Creating] i))))"
proof -
  show "Creating \<in> set (Conditions (Status
     (Status_SetConditions [ReconcileError e] (Status_SetConditions [Creating] i))))"
    by (rule set_kept[OF set_one]) (simp add: cond_types)
  show "ReconcileError e \<in> set (Conditions (Status
     (Status_SetConditions [ReconcileError e] (Status_SetConditions [Creating] i))))"
    by (rule set_one)
qed

lemma created_record_exact:
  "created_record i =
     i\<lparr>Finalizers :=
         (if finalizer \<in> set (Finalizers i) then Finalizers i else Finalizers i @ [finalizer]),
       Status := (Status i)
         \<lparr>Conditions := SetConditions [ReconcileSuccess]
            (SetConditions [Creating] (Conditions (Status i))),
          InstanceName := Engine (Spec i) @ ''-'' @ UID i\<rparr>\<rparr>"
  "Finalizers (created_record i) =
     (if finalizer \<in> set (Finalizers i) then Finalizers i else Finalizers i @ [finalizer])"
  "set (Finalizers (created_record i)) = insert finalizer (set (Finalizers i))"
  by (auto simp: created_record_def Status_SetConditions_def AddFinalizer_def)

text \<open>
  C3. When the password was generated and the provider's create reports AlreadyExists,
  the create phase makes two calls, the provider's create and the persist of the
  record it returns: nothing is published, so the generated password never reaches the
  publisher. That record is the record handed in with three changes and no other: its
  \<open>InstanceName\<close> is the derived name (engine, a dash, the UID); the owned finalizer
  is appended to its finalizers unless it is among them already, every other finalizer
  staying in place; and the Creating and then the ReconcileSuccess condition are set
  in its condition list. So it holds the owned finalizer, carries ReconcileSuccess (and
  Creating) and no ReconcileError condition. The result asks for an immediate requeue
  and the error returned is the persist's.
\<close>

theorem create_already_exists:
  assumes "GeneratePassword r 20 = Inr password"
    and "IsErrorAlreadyExists
           (CreateInstance client (Engine (Spec instance) @ ''-'' @ UID instance) password
              (Spec instance))"
  shows "calls (Reconciler_create r instance client) =
           [CallCreateInstance (Engine (Spec instance) @ ''-'' @ UID instance) password
              (Spec instance),
            CallUpdate (obj (Reconciler_create r instance client))]
       \<and> (\<forall>i d. CallPublishConnection i d \<notin> set (calls (Reconciler_create r instance client)))
       \<and> InstanceName (Status (obj (Reconciler_create r instance client))) =
           Engine (Spec instance) @ ''-'' @ UID instance
       \<and> finalizer \<in> set (Finalizers (obj (Reconciler_create r instance client)))
       \<and> ReconcileSuccess \<in> set (Conditions (Status (obj (Reconciler_create r instance client))))
       \<and> Creating \<in> set (Conditions (Status (obj (Reconciler_create r instance client))))
       \<and> (\<forall>e. ReconcileError e
               \<notin> set (Conditions (Status (obj (Reconciler_create r instance client)))))
       \<and> res (Reconciler_create r instance client) = \<lparr>Requeue = True, RequeueAfter = 0\<rparr>
       \<and> err (Reconciler_create r instance client) =
           Update r (obj (Reconciler_create r instance client))
       \<and> set (Finalizers (obj (Reconciler_create r instance client))) =
           insert finalizer (set (Finalizers instance))
       \<and> Finalizers (obj (Reconciler_create r instance client)) =
           (if finalizer \<in> set (Finalizers instance) then Finalizers instance
            else Finalizers instance @ [finalizer])
       \<and> obj (Reconciler_create r instance client) =
           instance
             \<lparr>Finalizers :=
                (if finalizer \<in> set (Finalizers instance) then Finalizers instance
                 else Finalizers instance @ [finalizer]),
              Status := (Status instance)
                \<lparr>Conditions := SetConditions [ReconcileSuccess]
                   (SetConditions [Creating] (Conditions (Status instance))),
                 InstanceName := Engine (Spec instance) @ ''-'' @ UID instance\<rparr>\<rparr>"
proof -
  note out = create_existed[OF assms]
  have exact: "obj (Reconciler_create r instance client) =
           instance
             \<lparr>Finalizers :=
                (if finalizer \<in> set (Finalizers instance) then Finalizers instance
                 else Finalizers instance @ [finalizer]),
              Status := (Status instance)
                \<lparr>Conditions := SetConditions [ReconcileSuccess]
                   (SetConditions [Creating] (Conditions (Status instance))),
                 InstanceName := Engine (Spec instance) @ ''-'' @ UID instance\<rparr>\<rparr>"
    unfolding out using created_record_exact(1)[of "instance"] by simp
  have rest: "calls (Reconciler_create r instance client) =
           [CallCreateInstance (Engine (Spec instance) @ ''-'' @ UID instance) password
              (Spec instance),
            CallUpdate (obj (Reconciler_create r instance client))]
       \<and> (\<forall>i d. CallPublishConnection i d \<notin> set (calls (Reconciler_create r instance client)))
       \<and> InstanceName (Status (obj (Reconciler_create r instance client))) =
           Engine (Spec instance) @ ''-'' @ UID instance
       \<and> finalizer \<in> set (Finalizers (obj (Reconciler_create r instance client)))
       \<and> ReconcileSuccess \<in> set (Conditions (Status (obj (Reconciler_create r instance client))))
       \<and> Creating \<in> set (Conditions (Status (obj (Reconciler_create r instance client))))
       \<and> (\<forall>e. ReconcileError e
               \<notin> set (Conditions (Status (obj (Reconciler_create r instance client)))))
       \<and> res (Reconciler_create r instance client) = \<lparr>Requeue = True, RequeueAfter = 0\<rparr>
       \<and> err (Reconciler_create r instance client) =
           Update r (obj (Reconciler_create r instance client))
       \<and> set (Finalizers (obj (Reconciler_create r instance client))) =
           insert finalizer (set (Finalizers instance))
       \<and> Finalizers (obj (Reconciler_create r instance client)) =
           (if finalizer \<in> set (Finalizers instance) then Finalizers instance
            else Finalizers instance @ [finalizer])"
    unfolding out
    by (simp add: created_record_simps created_record_conditions created_record_exact(2,3)
        resultRequeue_def insert_absorb)
  from rest exact show ?thesis
    by blast
qed

theorem create_already_exists_example:
  "GeneratePassword example_collaborators 20 = Inr ''0123456789abcdefghij''
   \<and> IsErrorAlreadyExists
       (CreateInstance
          (example_client\<lparr>CreateInstance := \<lambda>name password spec. Some (RDSAlreadyExists ''exists'')\<rparr>)
          (Engine (Spec example_shared) @ ''-'' @ UID example_shared)
          ''0123456789abcdefghij'' (Spec example_shared))
   \<and> Finalizers example_shared = [''finalizer.backup.example.io'']
   \<and> calls (Reconciler_create example_collaborators example_shared
         (example_client\<lparr>CreateInstance := \<lambda>name password spec. Some (RDSAlreadyExists ''exists'')\<rparr>)) =
       [CallCreateInstance ''mysql-7f3c'' ''0123456789abcdefghij'' (Spec example_shared),
        CallUpdate (obj (Reconciler_create example_collaborators example_shared
         (example_client\<lparr>CreateInstance := \<lambda>name password spec. Some (RDSAlreadyExists ''exists'')\<rparr>)))]
   \<and> InstanceName (Status (obj (Reconciler_create example_collaborators example_shared
         (example_client\<lparr>CreateInstance := \<lambda>name password spec. Some (RDSAlreadyExists ''exists'')\<rparr>)))) =
       ''mysql-7f3c''
   \<and> Finalizers (obj (Reconciler_create example_collaborators example_shared
         (example_client\<lparr>CreateInstance := \<lambda>name password spec. Some (RDSAlreadyExists ''exists'')\<rparr>))) =
       [''finalizer.backup.example.io'', finalizer]
   \<and> ReconcileSuccess \<in> set (Conditions (Status (obj (Reconciler_create example_collaborators
         example_shared
         (example_client\<lparr>CreateInstance := \<lambda>name password spec. Some (RDSAlreadyExists ''exists'')\<rparr>)))))
   \<and> res (Reconciler_create example_collaborators example_shared
         (example_client\<lparr>CreateInstance := \<lambda>name password spec. Some (RDSAlreadyExists ''exists'')\<rparr>)) =
       \<lparr>Requeue = True, RequeueAfter = 0\<rparr>"
proof -
  have g: "GeneratePassword example_collaborators 20 = Inr ''0123456789abcdefghij''"
    by (simp add: example_collaborators_def)
  have x: "IsErrorAlreadyExists
       (CreateInstance
          (example_client\<lparr>CreateInstance := \<lambda>name password spec. Some (RDSAlreadyExists ''exists'')\<rparr>)
          (Engine (Spec example_shared) @ ''-'' @ UID example_shared)
          ''0123456789abcdefghij'' (Spec example_shared))"
    by simp
  have name: "Engine (Spec example_shared) @ ''-'' @ UID example_shared = ''mysql-7f3c''"
    by (simp add: example_shared_def example_instance_def)
  have f: "Finalizers example_shared = [''finalizer.backup.example.io'']"
    by (simp add: example_shared_def)
  have k: "(if finalizer \<in> set [''finalizer.backup.example.io'']
            then [''finalizer.backup.example.io'']
            else [''finalizer.backup.example.io''] @ [finalizer]) =
           [''finalizer.backup.example.io'', finalizer]"
    by (simp add: finalizer_def controllerName_def)
  have e: "Finalizers (obj (Reconciler_create example_collaborators example_shared
         (example_client\<lparr>CreateInstance := \<lambda>name password spec. Some (RDSAlreadyExists ''exists'')\<rparr>))) =
       (if finalizer \<in> set (Finalizers example_shared) then Finalizers example_shared
        else Finalizers example_shared @ [finalizer])"
    using create_already_exists[OF g x] by blast
  have "Finalizers (obj (Reconciler_create example_collaborators example_shared
         (example_client\<lparr>CreateInstance := \<lambda>name password spec. Some (RDSAlreadyExists ''exists'')\<rparr>))) =
       [''finalizer.backup.example.io'', finalizer]"
    by (simp only: e f k)
  with g x f create_already_exists[OF g x] show ?thesis
    unfolding name by blast
qed

text \<open>
  C4. When the password was generated and the provider's create fails with an error
  that is not AlreadyExists, the create phase sets the ReconcileError condition of that
  error, persists the record and asks for an immediate requeue. It makes two calls, the
  provider's create and the persist: nothing is published. \<open>InstanceName\<close> and the
  finalizers are as they were on entry; so when the record came in with an empty
  \<open>InstanceName\<close> and no deletion timestamp, the branch of any reconciler run on the
  record left behind takes the create phase again.
\<close>

theorem create_provider_error:
  assumes "GeneratePassword r 20 = Inr password"
    and "CreateInstance client (Engine (Spec instance) @ ''-'' @ UID instance) password
           (Spec instance) = Some e"
    and "\<not> IsErrorAlreadyExists (Some e)"
  shows "ReconcileError e \<in> set (Conditions (Status (obj (Reconciler_create r instance client))))
       \<and> calls (Reconciler_create r instance client) =
           [CallCreateInstance (Engine (Spec instance) @ ''-'' @ UID instance) password
              (Spec instance),
            CallUpdate (obj (Reconciler_create r instance client))]
       \<and> (\<forall>i d. CallPublishConnection i d \<notin> set (calls (Reconciler_create r instance client)))
       \<and> res (Reconciler_create r instance client) = \<lparr>Requeue = True, RequeueAfter = 0\<rparr>
       \<and> err (Reconciler_create r instance client) =
           Update r (obj (Reconciler_create r instance client))
       \<and> InstanceName (Status (obj (Reconciler_create r instance client))) =
           InstanceName (Status instance)
       \<and> Finalizers (obj (Reconciler_create r instance client)) = Finalizers instance
       \<and> (DeletionTimestamp instance = None \<and> InstanceName (Status instance) = [] \<longrightarrow>
            InstanceName (Status (obj (Reconciler_create r instance client))) = []
          \<and> Reconcile_phase r' (obj (Reconciler_create r instance client)) client' =
              create r' (obj (Reconciler_create r instance client)) client')"
proof -
  have "ReconcileError e \<in> set (Conditions (Status
          (Status_SetConditions [ReconcileError e] (Status_SetConditions [Creating] instance))))"
    by (rule failed_create_conditions)
  then show ?thesis
    unfolding create_provider_failed[OF assms]
    by (simp add: after_simps fail_simps Status_SetConditions_simps resultRequeue_def
        Reconcile_phase_def)
qed

theorem create_provider_error_example:
  "GeneratePassword example_collaborators 20 = Inr ''0123456789abcdefghij''
   \<and> CreateInstance
       (example_client\<lparr>CreateInstance := \<lambda>name password spec. Some (OtherError ''throttled'')\<rparr>)
       (Engine (Spec example_instance) @ ''-'' @ UID example_instance)
       ''0123456789abcdefghij'' (Spec example_instance) = Some (OtherError ''throttled'')
   \<and> \<not> IsErrorAlreadyExists (Some (OtherError ''throttled''))
   \<and> ReconcileError (OtherError ''throttled'')
       \<in> set (Conditions (Status (obj (Reconciler_create example_collaborators example_instance
           (example_client\<lparr>CreateInstance := \<lambda>name password spec. Some (OtherError ''throttled'')\<rparr>)))))
   \<and> res (Reconciler_create example_collaborators example_instance
         (example_client\<lparr>CreateInstance := \<lambda>name password spec. Some (OtherError ''throttled'')\<rparr>)) =
       \<lparr>Requeue = True, RequeueAfter = 0\<rparr>
   \<and> InstanceName (Status (obj (Reconciler_create example_collaborators example_instance
         (example_client\<lparr>CreateInstance := \<lambda>name password spec. Some (OtherError ''throttled'')\<rparr>)))) =
       []
   \<and> Finalizers (obj (Reconciler_create example_collaborators example_instance
         (example_client\<lparr>CreateInstance := \<lambda>name password spec. Some (OtherError ''throttled'')\<rparr>))) =
       []"
proof -
  have g: "GeneratePassword example_collaborators 20 = Inr ''0123456789abcdefghij''"
    by (simp add: example_collaborators_def)
  have c: "CreateInstance
       (example_client\<lparr>CreateInstance := \<lambda>name password spec. Some (OtherError ''throttled'')\<rparr>)
       (Engine (Spec example_instance) @ ''-'' @ UID example_instance)
       ''0123456789abcdefghij'' (Spec example_instance) = Some (OtherError ''throttled'')"
    by simp
  have n: "\<not> IsErrorAlreadyExists (Some (OtherError ''throttled''))"
    by simp
  have i: "InstanceName (Status example_instance) = []" "Finalizers example_instance = []"
    by (simp_all add: example_instance_def)
  show ?thesis
    using g c n create_provider_error[OF g c n]
    unfolding i by blast
qed

text \<open>
  C10. Whatever the collaborators answer, the record the create phase returns carries
  the Creating condition, and that record is the one the phase persists, in its last
  call and in no other. On each failure path -- the password cannot be generated, the
  provider's create fails with an error that is not AlreadyExists, the publish fails --
  the record carries the ReconcileError condition of that error as well.
\<close>

theorem create_sets_Creating:
  "Creating \<in> set (Conditions (Status (obj (Reconciler_create r instance client))))
   \<and> (\<exists>before. calls (Reconciler_create r instance client) =
          before @ [CallUpdate (obj (Reconciler_create r instance client))]
        \<and> (\<forall>x. CallUpdate x \<notin> set before))
   \<and> (\<forall>e. GeneratePassword r 20 = Inl e \<longrightarrow>
          ReconcileError e \<in> set (Conditions (Status (obj (Reconciler_create r instance client)))))
   \<and> (\<forall>password e.
          GeneratePassword r 20 = Inr password
        \<and> CreateInstance client (Engine (Spec instance) @ ''-'' @ UID instance) password
            (Spec instance) = Some e
        \<and> \<not> IsErrorAlreadyExists (Some e) \<longrightarrow>
          ReconcileError e \<in> set (Conditions (Status (obj (Reconciler_create r instance client)))))
   \<and> (\<forall>password e.
          GeneratePassword r 20 = Inr password
        \<and> CreateInstance client (Engine (Spec instance) @ ''-'' @ UID instance) password
            (Spec instance) = None
        \<and> PublishConnection r (Status_SetConditions [Creating] instance)
            [(ResourceCredentialsSecretUserKey, MasterUsername (Spec instance)),
             (ResourceCredentialsSecretPasswordKey, password)] = Some e \<longrightarrow>
          ReconcileError e \<in> set (Conditions (Status (obj (Reconciler_create r instance client)))))"
proof (intro conjI allI impI)
  show "Creating \<in> set (Conditions (Status (obj (Reconciler_create r instance client))))"
    using create_obj_cases[of r "instance" client]
    by (auto simp: failed_create_conditions created_record_conditions)
next
  show "\<exists>before. calls (Reconciler_create r instance client) =
          before @ [CallUpdate (obj (Reconciler_create r instance client))]
        \<and> (\<forall>x. CallUpdate x \<notin> set before)"
    by (rule create_persists_last)
next
  fix e
  assume "GeneratePassword r 20 = Inl e"
  then show "ReconcileError e
      \<in> set (Conditions (Status (obj (Reconciler_create r instance client))))"
    by (simp add: create_password_failed fail_simps failed_create_conditions)
next
  fix password e
  assume "GeneratePassword r 20 = Inr password
        \<and> CreateInstance client (Engine (Spec instance) @ ''-'' @ UID instance) password
            (Spec instance) = Some e
        \<and> \<not> IsErrorAlreadyExists (Some e)"
  then show "ReconcileError e
      \<in> set (Conditions (Status (obj (Reconciler_create r instance client))))"
    by (simp add: create_provider_failed after_simps fail_simps failed_create_conditions)
next
  fix password e
  assume "GeneratePassword r 20 = Inr password
        \<and> CreateInstance client (Engine (Spec instance) @ ''-'' @ UID instance) password
            (Spec instance) = None
        \<and> PublishConnection r (Status_SetConditions [Creating] instance)
            [(ResourceCredentialsSecretUserKey, MasterUsername (Spec instance)),
             (ResourceCredentialsSecretPasswordKey, password)] = Some e"
  then show "ReconcileError e
      \<in> set (Conditions (Status (obj (Reconciler_create r instance client))))"
    by (simp add: create_publish_failed after_simps fail_simps failed_create_conditions)
qed

theorem create_sets_Creating_example:
  "GeneratePassword (example_collaborators\<lparr>GeneratePassword := \<lambda>n. Inl (OtherError ''no entropy'')\<rparr>)
     20 = Inl (OtherError ''no entropy'')
   \<and> Creating \<in> set (Conditions (Status (obj (Reconciler_create
         (example_collaborators\<lparr>GeneratePassword := \<lambda>n. Inl (OtherError ''no entropy'')\<rparr>)
         example_instance example_client))))
   \<and> ReconcileError (OtherError ''no entropy'') \<in> set (Conditions (Status (obj (Reconciler_create
         (example_collaborators\<lparr>GeneratePassword := \<lambda>n. Inl (OtherError ''no entropy'')\<rparr>)
         example_instance example_client))))"
proof -
  have g: "GeneratePassword
      (example_collaborators\<lparr>GeneratePassword := \<lambda>n. Inl (OtherError ''no entropy'')\<rparr>) 20 =
      Inl (OtherError ''no entropy'')"
    by simp
  show ?thesis
    using g create_sets_Creating[of
        "example_collaborators\<lparr>GeneratePassword := \<lambda>n. Inl (OtherError ''no entropy'')\<rparr>"
        example_instance example_client]
    by blast
qed

subsection \<open>The sync phase\<close>

lemma state_names_differ:
  "RDSInstanceStateCreating \<noteq> RDSInstanceStateFailed"
  "RDSInstanceStateCreating \<noteq> RDSInstanceStateAvailable"
  "RDSInstanceStateFailed \<noteq> RDSInstanceStateAvailable"
  "RDSInstanceStateFailed \<noteq> RDSInstanceStateCreating"
  "RDSInstanceStateAvailable \<noteq> RDSInstanceStateCreating"
  "RDSInstanceStateAvailable \<noteq> RDSInstanceStateFailed"
  by (simp_all add: RDSInstanceStateCreating_def RDSInstanceStateFailed_def
      RDSInstanceStateAvailable_def)

lemma observed_simps:
  "Spec (observed i db) = Spec i"
  "DeletionTimestamp (observed i db) = DeletionTimestamp i"
  "Endpoint (Status (observed i db)) = InstEndpoint db"
  "InstanceName (Status (observed i db)) = InstanceName (Status i)"
  by (simp_all add: observed_def)

text \<open>The ways through \<open>Reconciler_sync\<close>, each with its outcome.\<close>

lemma sync_get_failed:
  assumes "GetInstance client (InstanceName (Status i)) = Inl e"
  shows "Reconciler_sync r i client =
           after [CallGetInstance (InstanceName (Status i))] (fail r i e)"
  using assms by (simp add: Reconciler_sync_def Let_def)

lemma sync_creating:
  assumes "GetInstance client (InstanceName (Status i)) = Inr db"
    and "InstStatus db = RDSInstanceStateCreating"
  shows "Reconciler_sync r i client =
           \<lparr>res = resultRequeue,
            err = Update r (Status_SetConditions [Creating, ReconcileSuccess] (observed i db)),
            obj = Status_SetConditions [Creating, ReconcileSuccess] (observed i db),
            calls = [CallGetInstance (InstanceName (Status i)),
                     CallUpdate (Status_SetConditions [Creating, ReconcileSuccess]
                       (observed i db))]\<rparr>"
  using assms by (simp add: Reconciler_sync_def Let_def observed_def)

lemma sync_failed:
  assumes "GetInstance client (InstanceName (Status i)) = Inr db"
    and "InstStatus db = RDSInstanceStateFailed"
  shows "Reconciler_sync r i client =
           \<lparr>res = result,
            err = Update r (Status_SetConditions [Unavailable, ReconcileSuccess] (observed i db)),
            obj = Status_SetConditions [Unavailable, ReconcileSuccess] (observed i db),
            calls = [CallGetInstance (InstanceName (Status i)),
                     CallUpdate (Status_SetConditions [Unavailable, ReconcileSuccess]
                       (observed i db))]\<rparr>"
  using assms by (simp add: Reconciler_sync_def Let_def observed_def state_names_differ)

lemma sync_available_published:
  assumes "GetInstance client (InstanceName (Status i)) = Inr db"
    and "InstStatus db = RDSInstanceStateAvailable"
    and "PublishConnection r (SetBindable (Status_SetConditions [Available] (observed i db)))
           [(ResourceCredentialsSecretUserKey, MasterUsername (Spec i)),
            (ResourceCredentialsSecretEndpointKey, InstEndpoint db)] = None"
  shows "Reconciler_sync r i client =
           \<lparr>res = result,
            err = Update r (Status_SetConditions [ReconcileSuccess]
                    (SetBindable (Status_SetConditions [Available] (observed i db)))),
            obj = Status_SetConditions [ReconcileSuccess]
                    (SetBindable (Status_SetConditions [Available] (observed i db))),
            calls = [CallGetInstance (InstanceName (Status i)),
                     CallPublishConnection
                       (SetBindable (Status_SetConditions [Available] (observed i db)))
                       [(ResourceCredentialsSecretUserKey, MasterUsername (Spec i)),
                        (ResourceCredentialsSecretEndpointKey, InstEndpoint db)],
                     CallUpdate (Status_SetConditions [ReconcileSuccess]
                       (SetBindable (Status_SetConditions [Available] (observed i db))))]\<rparr>"
  using assms
  by (simp add: Reconciler_sync_def Let_def observed_def state_names_differ SetBindable_def
      Status_SetConditions_def)

lemma sync_available_publish_failed:
  assumes "GetInstance client (InstanceName (Status i)) = Inr db"
    and "InstStatus db = RDSInstanceStateAvailable"
    and "PublishConnection r (SetBindable (Status_SetConditions [Available] (observed i db)))
           [(ResourceCredentialsSecretUserKey, MasterUsername (Spec i)),
            (ResourceCredentialsSecretEndpointKey, InstEndpoint db)] = Some e"
  shows "Reconciler_sync r i client =
           after [CallGetInstance (InstanceName (Status i)),
                  CallPublishConnection
                    (SetBindable (Status_SetConditions [Available] (observed i db)))
                    [(ResourceCredentialsSecretUserKey, MasterUsername (Spec i)),
                     (ResourceCredentialsSecretEndpointKey, InstEndpoint db)]]
             (fail r (SetBindable (Status_SetConditions [Available] (observed i db))) e)"
  using assms
  by (simp add: Reconciler_sync_def Let_def observed_def state_names_differ SetBindable_def
      Status_SetConditions_def)

lemma sync_unexpected:
  assumes "GetInstance client (InstanceName (Status i)) = Inr db"
    and "InstStatus db \<noteq> RDSInstanceStateCreating"
    and "InstStatus db \<noteq> RDSInstanceStateFailed"
    and "InstStatus db \<noteq> RDSInstanceStateAvailable"
  shows "Reconciler_sync r i client =
           after [CallGetInstance (InstanceName (Status i))]
             (fail r (observed i db)
                (OtherError (''unexpected resource status: '' @ InstStatus db)))"
  using assms by (simp add: Reconciler_sync_def Let_def observed_def)

lemma SetBindable_simps:
  "Bindable (Status (SetBindable i))"
  "Conditions (Status (SetBindable i)) = Conditions (Status i)"
  "DeletionTimestamp (SetBindable i) = DeletionTimestamp i"
  by (simp_all add: SetBindable_def)

lemma available_record_cond:
  assumes "Type c = TypeSynced"
  shows "Available \<in> set (Conditions (Status (Status_SetConditions [c]
           (SetBindable (Status_SetConditions [Available] i)))))"
proof -
  have "Available \<in> set (Conditions (Status (SetBindable (Status_SetConditions [Available] i))))"
    using set_one[of Available i] by (simp add: SetBindable_simps)
  then show ?thesis
    using assms by (intro set_kept) (simp_all add: cond_types)
qed

lemma available_record_bindable:
  "Bindable (Status (Status_SetConditions [c] (SetBindable (Status_SetConditions [Available] i))))"
  by (simp add: Status_SetConditions_simps SetBindable_simps)

text \<open>
  C2 (as amended). When the provider's get succeeds, the sync phase dispatches on the
  state it returned. State \<^verbatim>\<open>creating\<close>: Creating and ReconcileSuccess are set and an
  immediate requeue is asked for. State \<^verbatim>\<open>failed\<close>: Unavailable and ReconcileSuccess
  are set and no requeue is asked for. State \<^verbatim>\<open>available\<close>: Available is set, the
  record is marked bindable and the publisher is called with the connection details,
  master username and endpoint; when the publish succeeds ReconcileSuccess is set and no
  requeue is asked for, and when it fails the ReconcileError condition of its error is
  set and an immediate requeue is asked for. Any other state: the ReconcileError
  condition of an ``unexpected resource status'' error is set and an immediate requeue
  is asked for. In the first, second and last case the calls are the provider's get and
  the persist alone, so nothing is published. In every case the record returned is the
  one persisted.
\<close>

theorem sync_state_mapping:
  assumes "GetInstance client (InstanceName (Status instance)) = Inr db"
  shows "(InstStatus db = RDSInstanceStateCreating \<longrightarrow>
            Creating \<in> set (Conditions (Status (obj (Reconciler_sync r instance client))))
          \<and> ReconcileSuccess \<in> set (Conditions (Status (obj (Reconciler_sync r instance client))))
          \<and> res (Reconciler_sync r instance client) = \<lparr>Requeue = True, RequeueAfter = 0\<rparr>
          \<and> calls (Reconciler_sync r instance client) =
              [CallGetInstance (InstanceName (Status instance)),
               CallUpdate (obj (Reconciler_sync r instance client))])
       \<and> (InstStatus db = RDSInstanceStateFailed \<longrightarrow>
            Unavailable \<in> set (Conditions (Status (obj (Reconciler_sync r instance client))))
          \<and> ReconcileSuccess \<in> set (Conditions (Status (obj (Reconciler_sync r instance client))))
          \<and> res (Reconciler_sync r instance client) = \<lparr>Requeue = False, RequeueAfter = 0\<rparr>
          \<and> calls (Reconciler_sync r instance client) =
              [CallGetInstance (InstanceName (Status instance)),
               CallUpdate (obj (Reconciler_sync r instance client))])
       \<and> (InstStatus db = RDSInstanceStateAvailable \<longrightarrow>
            Available \<in> set (Conditions (Status (obj (Reconciler_sync r instance client))))
          \<and> Bindable (Status (obj (Reconciler_sync r instance client)))
          \<and> calls (Reconciler_sync r instance client) =
              [CallGetInstance (InstanceName (Status instance)),
               CallPublishConnection
                 (SetBindable (Status_SetConditions [Available] (observed instance db)))
                 [(ResourceCredentialsSecretUserKey, MasterUsername (Spec instance)),
                  (ResourceCredentialsSecretEndpointKey, InstEndpoint db)],
               CallUpdate (obj (Reconciler_sync r instance client))]
          \<and> (PublishConnection r
                (SetBindable (Status_SetConditions [Available] (observed instance db)))
                [(ResourceCredentialsSecretUserKey, MasterUsername (Spec instance)),
                 (ResourceCredentialsSecretEndpointKey, InstEndpoint db)] = None \<longrightarrow>
                ReconcileSuccess
                  \<in> set (Conditions (Status (obj (Reconciler_sync r instance client))))
              \<and> res (Reconciler_sync r instance client) = \<lparr>Requeue = False, RequeueAfter = 0\<rparr>)
          \<and> (\<forall>e. PublishConnection r
                (SetBindable (Status_SetConditions [Available] (observed instance db)))
                [(ResourceCredentialsSecretUserKey, MasterUsername (Spec instance)),
                 (ResourceCredentialsSecretEndpointKey, InstEndpoint db)] = Some e \<longrightarrow>
                ReconcileError e
                  \<in> set (Conditions (Status (obj (Reconciler_sync r instance client))))
              \<and> res (Reconciler_sync r instance client) = \<lparr>Requeue = True, RequeueAfter = 0\<rparr>))
       \<and> (InstStatus db \<noteq> RDSInstanceStateCreating \<and> InstStatus db \<noteq> RDSInstanceStateFailed
          \<and> InstStatus db \<noteq> RDSInstanceStateAvailable \<longrightarrow>
            ReconcileError (OtherError (''unexpected resource status: '' @ InstStatus db))
              \<in> set (Conditions (Status (obj (Reconciler_sync r instance client))))
          \<and> res (Reconciler_sync r instance client) = \<lparr>Requeue = True, RequeueAfter = 0\<rparr>
          \<and> calls (Reconciler_sync r instance client) =
              [CallGetInstance (InstanceName (Status instance)),
               CallUpdate (obj (Reconciler_sync r instance client))])
       \<and> err (Reconciler_sync r instance client) = Update r (obj (Reconciler_sync r instance client))"
proof -
  consider (creating) "InstStatus db = RDSInstanceStateCreating"
    | (failed) "InstStatus db = RDSInstanceStateFailed"
    | (available) "InstStatus db = RDSInstanceStateAvailable"
    | (other) "InstStatus db \<noteq> RDSInstanceStateCreating" "InstStatus db \<noteq> RDSInstanceStateFailed"
        "InstStatus db \<noteq> RDSInstanceStateAvailable"
    by blast
  then show ?thesis
  proof cases
    case creating
    have "Type Creating \<noteq> Type ReconcileSuccess"
      by (simp add: cond_types)
    note conds = set_two[OF this, of "observed instance db"]
    show ?thesis
      unfolding sync_creating[OF assms creating]
      using creating conds by (simp add: state_names_differ resultRequeue_def)
  next
    case failed
    have "Type Unavailable \<noteq> Type ReconcileSuccess"
      by (simp add: cond_types)
    note conds = set_two[OF this, of "observed instance db"]
    show ?thesis
      unfolding sync_failed[OF assms failed]
      using failed conds by (simp add: state_names_differ result_def)
  next
    case available
    show ?thesis
    proof (cases "PublishConnection r
                (SetBindable (Status_SetConditions [Available] (observed instance db)))
                [(ResourceCredentialsSecretUserKey, MasterUsername (Spec instance)),
                 (ResourceCredentialsSecretEndpointKey, InstEndpoint db)]")
      case None
      have "Type ReconcileSuccess = TypeSynced"
        by (simp add: cond_types)
      note rec = available_record_cond[OF this, of "observed instance db"]
        available_record_bindable[of ReconcileSuccess "observed instance db"]
        set_one[of ReconcileSuccess
          "SetBindable (Status_SetConditions [Available] (observed instance db))"]
      show ?thesis
        unfolding sync_available_published[OF assms available None]
        using available None rec by (simp add: state_names_differ result_def)
    next
      case (Some e)
      have "Type (ReconcileError e) = TypeSynced"
        by (simp add: cond_types)
      note rec = available_record_cond[OF this, of "observed instance db"]
        available_record_bindable[of "ReconcileError e" "observed instance db"]
        set_one[of "ReconcileError e"
          "SetBindable (Status_SetConditions [Available] (observed instance db))"]
      show ?thesis
        unfolding sync_available_publish_failed[OF assms available Some]
        using available Some rec
        by (simp add: state_names_differ after_simps fail_simps resultRequeue_def)
    qed
  next
    case other
    note conds = set_one[of "ReconcileError (OtherError (''unexpected resource status: '' @ InstStatus db))"
        "observed instance db"]
    show ?thesis
      unfolding sync_unexpected[OF assms other]
      using other conds by (simp add: after_simps fail_simps resultRequeue_def)
  qed
qed

theorem sync_state_mapping_example:
  "GetInstance example_client (InstanceName (Status example_provisioned)) =
     Inr (example_db ''available'')
   \<and> InstStatus (example_db ''available'') = RDSInstanceStateAvailable
   \<and> PublishConnection example_collaborators
       (SetBindable (Status_SetConditions [Available]
          (observed example_provisioned (example_db ''available''))))
       [(ResourceCredentialsSecretUserKey, MasterUsername (Spec example_provisioned)),
        (ResourceCredentialsSecretEndpointKey, InstEndpoint (example_db ''available''))] = None
   \<and> Available \<in> set (Conditions (Status (obj
         (Reconciler_sync example_collaborators example_provisioned example_client))))
   \<and> Bindable (Status (obj
         (Reconciler_sync example_collaborators example_provisioned example_client)))
   \<and> calls (Reconciler_sync example_collaborators example_provisioned example_client) =
       [CallGetInstance ''mysql-7f3c'',
        CallPublishConnection
          (SetBindable (Status_SetConditions [Available]
             (observed example_provisioned (example_db ''available''))))
          [(''username'', ''admin''), (''endpoint'', ''mysql-7f3c.example.com'')],
        CallUpdate (obj
          (Reconciler_sync example_collaborators example_provisioned example_client))]
   \<and> ReconcileSuccess \<in> set (Conditions (Status (obj
         (Reconciler_sync example_collaborators example_provisioned example_client))))
   \<and> res (Reconciler_sync example_collaborators example_provisioned example_client) =
       \<lparr>Requeue = False, RequeueAfter = 0\<rparr>"
proof -
  have g: "GetInstance example_client (InstanceName (Status example_provisioned)) =
             Inr (example_db ''available'')"
    by (simp add: example_client_def)
  have a: "InstStatus (example_db ''available'') = RDSInstanceStateAvailable"
    by (simp add: example_db_def RDSInstanceStateAvailable_def)
  have p: "PublishConnection example_collaborators
       (SetBindable (Status_SetConditions [Available]
          (observed example_provisioned (example_db ''available''))))
       [(ResourceCredentialsSecretUserKey, MasterUsername (Spec example_provisioned)),
        (ResourceCredentialsSecretEndpointKey, InstEndpoint (example_db ''available''))] = None"
    by (simp add: example_collaborators_def)
  have v: "InstanceName (Status example_provisioned) = ''mysql-7f3c''"
    "MasterUsername (Spec example_provisioned) = ''admin''"
    "InstEndpoint (example_db ''available'') = ''mysql-7f3c.example.com''"
    "ResourceCredentialsSecretUserKey = ''username''"
    "ResourceCredentialsSecretEndpointKey = ''endpoint''"
    by (simp_all add: example_provisioned_def example_db_def
        ResourceCredentialsSecretUserKey_def ResourceCredentialsSecretEndpointKey_def)
  from sync_state_mapping[OF g, of example_collaborators] a p
  have "Available \<in> set (Conditions (Status (obj
         (Reconciler_sync example_collaborators example_provisioned example_client))))
   \<and> Bindable (Status (obj
         (Reconciler_sync example_collaborators example_provisioned example_client)))
   \<and> calls (Reconciler_sync example_collaborators example_provisioned example_client) =
       [CallGetInstance (InstanceName (Status example_provisioned)),
        CallPublishConnection
          (SetBindable (Status_SetConditions [Available]
             (observed example_provisioned (example_db ''available''))))
          [(ResourceCredentialsSecretUserKey, MasterUsername (Spec example_provisioned)),
           (ResourceCredentialsSecretEndpointKey, InstEndpoint (example_db ''available''))],
        CallUpdate (obj
          (Reconciler_sync example_collaborators example_provisioned example_client))]
   \<and> ReconcileSuccess \<in> set (Conditions (Status (obj
         (Reconciler_sync example_collaborators example_provisioned example_client))))
   \<and> res (Reconciler_sync example_collaborators example_provisioned example_client) =
       \<lparr>Requeue = False, RequeueAfter = 0\<rparr>"
    by blast
  then show ?thesis
    using g a p unfolding v by blast
qed

text \<open>
  C2 as first stated has the state \<^verbatim>\<open>available\<close> always end with ReconcileSuccess and
  no requeue. It does not when the publisher fails: on the provisioned record, with a
  provider that reports \<^verbatim>\<open>available\<close> and a publisher that answers with an error,
  the sync phase ends with the ReconcileError condition of that error, without
  ReconcileSuccess, and asks for an immediate requeue.
\<close>

theorem sync_available_publish_failure:
  "GetInstance example_client (InstanceName (Status example_provisioned)) =
     Inr (example_db ''available'')
   \<and> InstStatus (example_db ''available'') = RDSInstanceStateAvailable
   \<and> ReconcileSuccess \<notin> set (Conditions (Status (obj
         (Reconciler_sync
            (example_collaborators
               \<lparr>PublishConnection := \<lambda>i details. Some (OtherError ''secret store down'')\<rparr>)
            example_provisioned example_client))))
   \<and> Conditions (Status (obj
         (Reconciler_sync
            (example_collaborators
               \<lparr>PublishConnection := \<lambda>i details. Some (OtherError ''secret store down'')\<rparr>)
            example_provisioned example_client))) =
       [ReferenceResolutionSuccess, Available, ReconcileError (OtherError ''secret store down'')]
   \<and> res (Reconciler_sync
            (example_collaborators
               \<lparr>PublishConnection := \<lambda>i details. Some (OtherError ''secret store down'')\<rparr>)
            example_provisioned example_client) =
       \<lparr>Requeue = True, RequeueAfter = 0\<rparr>"
proof -
  have g: "GetInstance example_client (InstanceName (Status example_provisioned)) =
             Inr (example_db ''available'')"
    by (simp add: example_client_def)
  have a: "InstStatus (example_db ''available'') = RDSInstanceStateAvailable"
    by (simp add: example_db_def RDSInstanceStateAvailable_def)
  have p: "PublishConnection
             (example_collaborators
                \<lparr>PublishConnection := \<lambda>i details. Some (OtherError ''secret store down'')\<rparr>)
             (SetBindable (Status_SetConditions [Available]
                (observed example_provisioned (example_db ''available''))))
             [(ResourceCredentialsSecretUserKey, MasterUsername (Spec example_provisioned)),
              (ResourceCredentialsSecretEndpointKey, InstEndpoint (example_db ''available''))] =
           Some (OtherError ''secret store down'')"
    by simp
  have c: "Conditions (Status (obj
         (Reconciler_sync
            (example_collaborators
               \<lparr>PublishConnection := \<lambda>i details. Some (OtherError ''secret store down'')\<rparr>)
            example_provisioned example_client))) =
       [ReferenceResolutionSuccess, Available, ReconcileError (OtherError ''secret store down'')]"
    unfolding sync_available_publish_failed[OF g a p]
    by (simp add: after_simps fail_simps Status_SetConditions_simps SetBindable_simps
        observed_def SetConditions_def SetCondition_def cond_types example_provisioned_def)
  have n: "ReconcileSuccess \<notin> set
       [ReferenceResolutionSuccess, Available, ReconcileError (OtherError ''secret store down'')]"
    by (simp add: ReconcileSuccess_def ReferenceResolutionSuccess_def Available_def
        ReconcileError_def)
  have r: "res (Reconciler_sync
            (example_collaborators
               \<lparr>PublishConnection := \<lambda>i details. Some (OtherError ''secret store down'')\<rparr>)
            example_provisioned example_client) =
       \<lparr>Requeue = True, RequeueAfter = 0\<rparr>"
    unfolding sync_available_publish_failed[OF g a p]
    by (simp add: after_simps fail_simps resultRequeue_def)
  show ?thesis
    using g a c n r by simp
qed

subsection \<open>\<open>Reconcile\<close>: the gates and the branch\<close>

text \<open>The ways through \<open>Reconcile\<close> once the record is fetched.\<close>

lemma Reconcile_connect_failed:
  assumes "Get r request = Inr i" and "connect r i = Inl e"
  shows "Reconcile r request = fail r i e"
  using assms by (simp add: Reconcile_def)

lemma Reconcile_resolution_failed:
  assumes "Get r request = Inr i" and "connect r i = Inr rdsClient"
    and "\<not> IsConditionTrue (RDSInstance_GetCondition i TypeReferencesResolved)"
    and "ResolveReferences r i = Some e"
  shows "Reconcile r request =
           \<lparr>res = \<lparr>Requeue = False, RequeueAfter = aLongWait\<rparr>,
            err = Wrap (Update r (Status_SetConditions
                    [if IsReferencesAccessError e then ReferenceResolutionBlocked e
                     else ReconcileError e] i)) errUpdateManagedStatus,
            obj = Status_SetConditions
                    [if IsReferencesAccessError e then ReferenceResolutionBlocked e
                     else ReconcileError e] i,
            calls = [CallResolveReferences i,
                     CallUpdate (Status_SetConditions
                       [if IsReferencesAccessError e then ReferenceResolutionBlocked e
                        else ReconcileError e] i)]\<rparr>"
  using assms by (simp add: Reconcile_def Let_def)

lemma Reconcile_resolved:
  assumes "Get r request = Inr i" and "connect r i = Inr rdsClient"
    and "\<not> IsConditionTrue (RDSInstance_GetCondition i TypeReferencesResolved)"
    and "ResolveReferences r i = None"
  shows "Reconcile r request =
           after [CallResolveReferences i]
             (Reconcile_phase r (Status_SetConditions [ReferenceResolutionSuccess] i) rdsClient)"
  using assms by (simp add: Reconcile_def)

lemma Reconcile_already_resolved:
  assumes "Get r request = Inr i" and "connect r i = Inr rdsClient"
    and "IsConditionTrue (RDSInstance_GetCondition i TypeReferencesResolved)"
  shows "Reconcile r request = Reconcile_phase r i rdsClient"
  using assms by (simp add: Reconcile_def)

lemma resolved_is_true:
  "IsConditionTrue
     (RDSInstance_GetCondition (Status_SetConditions [ReferenceResolutionSuccess] i)
        TypeReferencesResolved)"
proof -
  have "find (\<lambda>x. Type x = TypeReferencesResolved)
          (SetCondition ReferenceResolutionSuccess (Conditions (Status i))) =
        Some ReferenceResolutionSuccess"
    using find_SetCondition[of ReferenceResolutionSuccess "Conditions (Status i)"]
    by (simp add: cond_types)
  then show ?thesis
    by (simp add: RDSInstance_GetCondition_def GetCondition_def Status_SetConditions_simps
        SetConditions_Cons SetConditions_Nil IsConditionTrue_def ReferenceResolutionSuccess_def)
qed

text \<open>The phases a fetched record's fields rule out are never run, gates or no gates.\<close>

lemma Reconcile_ignores_create:
  assumes "Get r request = Inr i"
    and "DeletionTimestamp i \<noteq> None \<or> InstanceName (Status i) \<noteq> []"
  shows "Reconcile (r\<lparr>create := c\<rparr>) request = Reconcile r request"
  using assms
  by (auto simp: Reconcile_def Reconcile_phase_def fail_def Let_def Status_SetConditions_simps
      split: sum.splits option.splits)

lemma Reconcile_ignores_sync:
  assumes "Get r request = Inr i"
    and "DeletionTimestamp i \<noteq> None \<or> InstanceName (Status i) = []"
  shows "Reconcile (r\<lparr>sync := s\<rparr>) request = Reconcile r request"
  using assms
  by (auto simp: Reconcile_def Reconcile_phase_def fail_def Let_def Status_SetConditions_simps
      split: sum.splits option.splits)

lemma Reconcile_ignores_delete:
  assumes "Get r request = Inr i"
    and "DeletionTimestamp i = None"
  shows "Reconcile (r\<lparr>delete := d\<rparr>) request = Reconcile r request"
  using assms
  by (auto simp: Reconcile_def Reconcile_phase_def fail_def Let_def Status_SetConditions_simps
      split: sum.splits option.splits)

lemma no_create_call:
  "CallCreateInstance n p s \<notin> set (calls (fail r i e))"
  "CallCreateInstance n p s \<notin> set (calls (Reconciler_sync r i client))"
  "CallCreateInstance n p s \<notin> set (calls (Reconciler_delete r i client))"
  by (auto simp: Reconciler_sync_def Reconciler_delete_def Let_def fail_def after_def
      split: sum.splits option.splits if_splits)

lemma Reconcile_never_creates:
  assumes "Get c request = Inr i"
    and "InstanceName (Status i) \<noteq> []"
  shows "CallCreateInstance n p s \<notin> set (calls (Reconcile (SetupWithManager c) request))"
proof -
  have g: "Get (SetupWithManager c) request = Inr i"
    using assms(1) by (simp add: SetupWithManager_simps)
  show ?thesis
  proof (cases "connect (SetupWithManager c) i")
    case (Inl e)
    show ?thesis
      unfolding Reconcile_connect_failed[OF g Inl] by (rule no_create_call)
  next
    case (Inr rdsClient)
    show ?thesis
    proof (cases "IsConditionTrue (RDSInstance_GetCondition i TypeReferencesResolved)")
      case True
      show ?thesis
        unfolding Reconcile_already_resolved[OF g Inr True]
        using assms(2)
        by (simp add: Reconcile_phase_def SetupWithManager_simps no_create_call)
    next
      case False
      show ?thesis
      proof (cases "ResolveReferences (SetupWithManager c) i")
        case None
        show ?thesis
          unfolding Reconcile_resolved[OF g Inr False None]
          using assms(2)
          by (simp add: Reconcile_phase_def SetupWithManager_simps no_create_call after_simps
              Status_SetConditions_simps)
      next
        case (Some e)
        show ?thesis
          unfolding Reconcile_resolution_failed[OF g Inr False Some] by simp
      qed
    qed
  qed
qed

text \<open>
  C1 (as amended). For every fetched record, two fields of the record and nothing else
  decide the one phase \<open>Reconcile\<close> may run, in this order: with a deletion timestamp
  it is the delete phase; without one and with an empty \<open>InstanceName\<close> it is the
  create phase; otherwise it is the sync phase. The other two phases are never run: the
  outcome of \<open>Reconcile\<close> is the same whatever functions stand in their fields. In
  particular, once \<open>InstanceName\<close> is non-empty no invocation takes the create branch,
  whatever the collaborators answer and whatever conditions the record carries, and the
  reconciler as the controller wires it never calls the provider's create. The phase
  the fields pick is run whenever the client is built and the references are resolved
  (they were already, or the resolver succeeds now): the outcome of \<open>Reconcile\<close> is
  then the outcome of that phase, after the resolver's call if there was one.
\<close>

theorem Reconcile_branch:
  assumes "Get r request = Inr instance"
  defines "resolved \<equiv>
             (if IsConditionTrue (RDSInstance_GetCondition instance TypeReferencesResolved)
              then [] else [CallResolveReferences instance])"
    and "fetched \<equiv>
             (if IsConditionTrue (RDSInstance_GetCondition instance TypeReferencesResolved)
              then instance else Status_SetConditions [ReferenceResolutionSuccess] instance)"
  shows "(connect r instance = Inr rdsClient
          \<and> (IsConditionTrue (RDSInstance_GetCondition instance TypeReferencesResolved)
             \<or> ResolveReferences r instance = None) \<longrightarrow>
            (DeletionTimestamp instance \<noteq> None \<longrightarrow>
               Reconcile r request = after resolved (delete r fetched rdsClient))
          \<and> (DeletionTimestamp instance = None \<and> InstanceName (Status instance) = [] \<longrightarrow>
               Reconcile r request = after resolved (create r fetched rdsClient))
          \<and> (DeletionTimestamp instance = None \<and> InstanceName (Status instance) \<noteq> [] \<longrightarrow>
               Reconcile r request = after resolved (sync r fetched rdsClient)))
       \<and> (InstanceName (Status instance) \<noteq> [] \<longrightarrow>
            (\<forall>c. Reconcile (r\<lparr>create := c\<rparr>) request = Reconcile r request))
       \<and> (InstanceName (Status instance) \<noteq> [] \<longrightarrow>
            (\<forall>c0 n p s. r = SetupWithManager c0 \<longrightarrow>
               CallCreateInstance n p s \<notin> set (calls (Reconcile r request))))
       \<and> (DeletionTimestamp instance \<noteq> None \<longrightarrow>
            (\<forall>c s. Reconcile (r\<lparr>create := c, sync := s\<rparr>) request = Reconcile r request))
       \<and> (DeletionTimestamp instance = None \<and> InstanceName (Status instance) = [] \<longrightarrow>
            (\<forall>s d. Reconcile (r\<lparr>sync := s, delete := d\<rparr>) request = Reconcile r request))
       \<and> (DeletionTimestamp instance = None \<and> InstanceName (Status instance) \<noteq> [] \<longrightarrow>
            (\<forall>c d. Reconcile (r\<lparr>create := c, delete := d\<rparr>) request = Reconcile r request))"
proof (intro conjI impI allI)
  assume gates: "connect r instance = Inr rdsClient
          \<and> (IsConditionTrue (RDSInstance_GetCondition instance TypeReferencesResolved)
             \<or> ResolveReferences r instance = None)"
  then have c: "connect r instance = Inr rdsClient"
    by blast
  have phase: "Reconcile r request = after resolved (Reconcile_phase r fetched rdsClient)"
  proof (cases "IsConditionTrue (RDSInstance_GetCondition instance TypeReferencesResolved)")
    case True
    from Reconcile_already_resolved[OF assms(1) c True] True
    show ?thesis
      by (simp add: resolved_def fetched_def after_Nil)
  next
    case False
    with gates have "ResolveReferences r instance = None"
      by blast
    from Reconcile_resolved[OF assms(1) c False this] False
    show ?thesis
      by (simp add: resolved_def fetched_def)
  qed
  have same: "DeletionTimestamp fetched = DeletionTimestamp instance"
    "InstanceName (Status fetched) = InstanceName (Status instance)"
    by (simp_all add: fetched_def Status_SetConditions_simps)
  show "Reconcile r request = after resolved (delete r fetched rdsClient)"
    if "DeletionTimestamp instance \<noteq> None"
    using that unfolding phase by (simp add: Reconcile_phase_def same)
  show "Reconcile r request = after resolved (create r fetched rdsClient)"
    if "DeletionTimestamp instance = None \<and> InstanceName (Status instance) = []"
    using that unfolding phase by (simp add: Reconcile_phase_def same)
  show "Reconcile r request = after resolved (sync r fetched rdsClient)"
    if "DeletionTimestamp instance = None \<and> InstanceName (Status instance) \<noteq> []"
    using that unfolding phase by (simp add: Reconcile_phase_def same)
next
  fix c
  assume "InstanceName (Status instance) \<noteq> []"
  then show "Reconcile (r\<lparr>create := c\<rparr>) request = Reconcile r request"
    by (intro Reconcile_ignores_create[OF assms(1)]) blast
next
  fix c0 n p s
  assume n: "InstanceName (Status instance) \<noteq> []" and w: "r = SetupWithManager c0"
  from assms(1) w have "Get c0 request = Inr instance"
    by (simp add: SetupWithManager_simps)
  from Reconcile_never_creates[OF this n] w
  show "CallCreateInstance n p s \<notin> set (calls (Reconcile r request))"
    by simp
next
  fix c s
  assume d: "DeletionTimestamp instance \<noteq> None"
  have g: "Get (r\<lparr>create := c\<rparr>) request = Inr instance"
    using assms(1) by simp
  have "Reconcile (r\<lparr>create := c, sync := s\<rparr>) request = Reconcile (r\<lparr>create := c\<rparr>) request"
    using d by (intro Reconcile_ignores_sync[OF g]) blast
  also have "\<dots> = Reconcile r request"
    using d by (intro Reconcile_ignores_create[OF assms(1)]) blast
  finally show "Reconcile (r\<lparr>create := c, sync := s\<rparr>) request = Reconcile r request" .
next
  fix s d
  assume a: "DeletionTimestamp instance = None \<and> InstanceName (Status instance) = []"
  have g: "Get (r\<lparr>sync := s\<rparr>) request = Inr instance"
    using assms(1) by simp
  have "Reconcile (r\<lparr>sync := s, delete := d\<rparr>) request = Reconcile (r\<lparr>sync := s\<rparr>) request"
    using a by (intro Reconcile_ignores_delete[OF g]) blast
  also have "\<dots> = Reconcile r request"
    using a by (intro Reconcile_ignores_sync[OF assms(1)]) blast
  finally show "Reconcile (r\<lparr>sync := s, delete := d\<rparr>) request = Reconcile r request" .
next
  fix c d
  assume a: "DeletionTimestamp instance = None \<and> InstanceName (Status instance) \<noteq> []"
  have g: "Get (r\<lparr>create := c\<rparr>) request = Inr instance"
    using assms(1) by simp
  have "Reconcile (r\<lparr>create := c, delete := d\<rparr>) request = Reconcile (r\<lparr>create := c\<rparr>) request"
    using a by (intro Reconcile_ignores_delete[OF g]) blast
  also have "\<dots> = Reconcile r request"
    using a by (intro Reconcile_ignores_create[OF assms(1)]) blast
  finally show "Reconcile (r\<lparr>create := c, delete := d\<rparr>) request = Reconcile r request" .
qed

theorem Reconcile_branch_example:
  "Get (SetupWithManager (example_collaborators\<lparr>Get := \<lambda>key. Inr example_provisioned\<rparr>))
     ''default/db'' = Inr example_provisioned
   \<and> connect (SetupWithManager (example_collaborators\<lparr>Get := \<lambda>key. Inr example_provisioned\<rparr>))
       example_provisioned = Inr example_client
   \<and> IsConditionTrue (RDSInstance_GetCondition example_provisioned TypeReferencesResolved)
   \<and> DeletionTimestamp example_provisioned = None
   \<and> InstanceName (Status example_provisioned) = ''mysql-7f3c''
   \<and> Reconcile (SetupWithManager (example_collaborators\<lparr>Get := \<lambda>key. Inr example_provisioned\<rparr>))
       ''default/db'' =
     Reconciler_sync (example_collaborators\<lparr>Get := \<lambda>key. Inr example_provisioned\<rparr>)
       example_provisioned example_client
   \<and> CallCreateInstance ''mysql-7f3c'' ''0123456789abcdefghij'' (Spec example_provisioned)
       \<notin> set (calls (Reconcile
           (SetupWithManager (example_collaborators\<lparr>Get := \<lambda>key. Inr example_provisioned\<rparr>))
           ''default/db''))"
proof -
  have g: "Get (SetupWithManager (example_collaborators\<lparr>Get := \<lambda>key. Inr example_provisioned\<rparr>))
     ''default/db'' = Inr example_provisioned"
    by (simp add: SetupWithManager_simps)
  have c: "connect (SetupWithManager (example_collaborators\<lparr>Get := \<lambda>key. Inr example_provisioned\<rparr>))
       example_provisioned = Inr example_client"
    by (simp add: SetupWithManager_simps example_connect)
  have t: "IsConditionTrue (RDSInstance_GetCondition example_provisioned TypeReferencesResolved)"
    by (simp add: IsConditionTrue_def RDSInstance_GetCondition_def GetCondition_def
        example_provisioned_def ReferenceResolutionSuccess_def)
  have d: "DeletionTimestamp example_provisioned = None"
    and n: "InstanceName (Status example_provisioned) = ''mysql-7f3c''"
    by (simp_all add: example_provisioned_def)
  have n': "InstanceName (Status example_provisioned) \<noteq> []"
    by (simp add: n)
  have "Reconcile (SetupWithManager (example_collaborators\<lparr>Get := \<lambda>key. Inr example_provisioned\<rparr>))
       ''default/db'' =
     Reconciler_sync (example_collaborators\<lparr>Get := \<lambda>key. Inr example_provisioned\<rparr>)
       example_provisioned example_client"
    using Reconcile_branch[OF g, where rdsClient = example_client] c t d n
    by (simp add: after_Nil SetupWithManager_simps)
  moreover have "CallCreateInstance ''mysql-7f3c'' ''0123456789abcdefghij'' (Spec example_provisioned)
       \<notin> set (calls (Reconcile
           (SetupWithManager (example_collaborators\<lparr>Get := \<lambda>key. Inr example_provisioned\<rparr>))
           ''default/db''))"
    using Reconcile_branch[OF g, where rdsClient = example_client] n' by blast
  ultimately show ?thesis
    using g c t d n by blast
qed

text \<open>
  C1 as first stated has every fetched record reach the phase its fields pick. It does
  not when the client cannot be built. With a provider configuration that cannot be
  retrieved, \<open>Reconcile\<close> ends through \<open>fail\<close> on the provisioned record, on the
  record being deleted and on the fresh record alike: its one call is the persist of
  the record with the ReconcileError condition. The provider's get, delete and create,
  which the sync, delete and create phase would call on these records, are not made.
  Nor does it when the resolver fails: on the provisioned record whose references are
  not yet resolved, with the client built, the calls of \<open>Reconcile\<close> are the
  resolver's and the persist, and the sync phase is not entered.
\<close>

theorem Reconcile_connect_failure:
  "Get (SetupWithManager example_unreachable) ''default/db'' = Inr example_provisioned
   \<and> DeletionTimestamp example_provisioned = None
   \<and> InstanceName (Status example_provisioned) = ''mysql-7f3c''
   \<and> calls (Reconcile (SetupWithManager example_unreachable) ''default/db'') =
       [CallUpdate (Status_SetConditions [ReconcileError (OtherError ''no provider'')]
          example_provisioned)]
   \<and> CallGetInstance ''mysql-7f3c''
       \<notin> set (calls (Reconcile (SetupWithManager example_unreachable) ''default/db''))
   \<and> CallGetInstance ''mysql-7f3c''
       \<in> set (calls (Reconciler_sync example_unreachable example_provisioned example_client))
   \<and> Get (SetupWithManager example_unreachable) ''default/old'' = Inr example_deleting
   \<and> DeletionTimestamp example_deleting = Some 1700000000
   \<and> calls (Reconcile (SetupWithManager example_unreachable) ''default/old'') =
       [CallUpdate (Status_SetConditions [ReconcileError (OtherError ''no provider'')]
          example_deleting)]
   \<and> CallDeleteInstance ''mysql-7f3c''
       \<in> set (calls (Reconciler_delete example_unreachable example_deleting example_client))
   \<and> Get (SetupWithManager example_unreachable) ''default/new'' = Inr example_instance
   \<and> DeletionTimestamp example_instance = None
   \<and> InstanceName (Status example_instance) = []
   \<and> calls (Reconcile (SetupWithManager example_unreachable) ''default/new'') =
       [CallUpdate (Status_SetConditions [ReconcileError (OtherError ''no provider'')]
          example_instance)]
   \<and> CallCreateInstance ''mysql-7f3c'' ''0123456789abcdefghij'' (Spec example_instance)
       \<in> set (calls (Reconciler_create example_unreachable example_instance example_client))
   \<and> Get (SetupWithManager example_blocked) ''default/db'' = Inr example_unresolved
   \<and> connect (SetupWithManager example_blocked) example_unresolved = Inr example_client
   \<and> DeletionTimestamp example_unresolved = None
   \<and> InstanceName (Status example_unresolved) = ''mysql-7f3c''
   \<and> calls (Reconcile (SetupWithManager example_blocked) ''default/db'') =
       [CallResolveReferences example_unresolved,
        CallUpdate (Status_SetConditions [ReconcileError (OtherError ''claim not bound'')]
          example_unresolved)]"
proof -
  have g1: "Get (SetupWithManager example_unreachable) ''default/db'' = Inr example_provisioned"
    and g2: "Get (SetupWithManager example_unreachable) ''default/old'' = Inr example_deleting"
    and g3: "Get (SetupWithManager example_unreachable) ''default/new'' = Inr example_instance"
    by (simp_all add: SetupWithManager_simps example_unreachable_def example_store_def)
  have c: "connect (SetupWithManager example_unreachable) i = Inl (OtherError ''no provider'')"
    for i
    by (simp add: SetupWithManager_simps Reconciler_connect_def example_unreachable_def)
  have f1: "DeletionTimestamp example_provisioned = None"
    "InstanceName (Status example_provisioned) = ''mysql-7f3c''"
    "DeletionTimestamp example_deleting = Some 1700000000"
    "InstanceName (Status example_deleting) = ''mysql-7f3c''"
    "ReclaimPolicy (Spec example_deleting) = ReclaimDelete"
    "DeletionTimestamp example_instance = None"
    "InstanceName (Status example_instance) = []"
    "Engine (Spec example_instance) @ ''-'' @ UID example_instance = ''mysql-7f3c''"
    "DeletionTimestamp example_unresolved = None"
    "InstanceName (Status example_unresolved) = ''mysql-7f3c''"
    by (simp_all add: example_provisioned_def example_deleting_def example_instance_def
        example_unresolved_def ReclaimDelete_def)
  have k1: "calls (Reconcile (SetupWithManager example_unreachable) ''default/db'') =
       [CallUpdate (Status_SetConditions [ReconcileError (OtherError ''no provider'')]
          example_provisioned)]"
    unfolding Reconcile_connect_failed[OF g1 c] by (simp add: fail_simps)
  have k2: "calls (Reconcile (SetupWithManager example_unreachable) ''default/old'') =
       [CallUpdate (Status_SetConditions [ReconcileError (OtherError ''no provider'')]
          example_deleting)]"
    unfolding Reconcile_connect_failed[OF g2 c] by (simp add: fail_simps)
  have k3: "calls (Reconcile (SetupWithManager example_unreachable) ''default/new'') =
       [CallUpdate (Status_SetConditions [ReconcileError (OtherError ''no provider'')]
          example_instance)]"
    unfolding Reconcile_connect_failed[OF g3 c] by (simp add: fail_simps)
  have n1: "CallGetInstance ''mysql-7f3c''
       \<notin> set (calls (Reconcile (SetupWithManager example_unreachable) ''default/db''))"
    unfolding k1 by simp
  have s1: "CallGetInstance ''mysql-7f3c''
       \<in> set (calls (Reconciler_sync example_unreachable example_provisioned example_client))"
    by (simp add: Reconciler_sync_def Let_def f1 after_simps split: sum.splits option.splits)
  have s2: "CallDeleteInstance ''mysql-7f3c''
       \<in> set (calls (Reconciler_delete example_unreachable example_deleting example_client))"
    by (simp add: Reconciler_delete_def Let_def f1 after_simps Status_SetConditions_simps
        split: option.splits)
  have p: "GeneratePassword example_unreachable 20 = Inr ''0123456789abcdefghij''"
    by (simp add: example_unreachable_def example_collaborators_def)
  have s3: "CallCreateInstance ''mysql-7f3c'' ''0123456789abcdefghij'' (Spec example_instance)
       \<in> set (calls (Reconciler_create example_unreachable example_instance example_client))"
  proof -
    have cN: "CreateInstance example_client
        (Engine (Spec example_instance) @ ''-'' @ UID example_instance)
        ''0123456789abcdefghij'' (Spec example_instance) = None"
      by (simp add: example_client_def)
    have pN: "PublishConnection example_unreachable
        (Status_SetConditions [Creating] example_instance)
        [(ResourceCredentialsSecretUserKey, MasterUsername (Spec example_instance)),
         (ResourceCredentialsSecretPasswordKey, ''0123456789abcdefghij'')] = None"
      by (simp add: example_unreachable_def example_collaborators_def)
    show ?thesis
      unfolding create_published[OF p cN pN] by (simp add: example_instance_def)
  qed
  have g4: "Get (SetupWithManager example_blocked) ''default/db'' = Inr example_unresolved"
    by (simp add: SetupWithManager_simps example_blocked_def)
  have c4: "connect (SetupWithManager example_blocked) example_unresolved = Inr example_client"
    by (simp add: SetupWithManager_simps Reconciler_connect_def example_blocked_def
        example_collaborators_def)
  have t4: "\<not> IsConditionTrue (RDSInstance_GetCondition example_unresolved TypeReferencesResolved)"
    by (simp add: IsConditionTrue_def RDSInstance_GetCondition_def GetCondition_def
        example_unresolved_def)
  have r4: "ResolveReferences (SetupWithManager example_blocked) example_unresolved =
      Some (OtherError ''claim not bound'')"
    by (simp add: SetupWithManager_simps example_blocked_def)
  have k4: "calls (Reconcile (SetupWithManager example_blocked) ''default/db'') =
       [CallResolveReferences example_unresolved,
        CallUpdate (Status_SetConditions [ReconcileError (OtherError ''claim not bound'')]
          example_unresolved)]"
    unfolding Reconcile_resolution_failed[OF g4 c4 t4 r4] by simp
  show ?thesis
    by (intro conjI) (rule g1 f1 k1 n1 s1 g2 k2 s2 g3 k3 s3 g4 c4 k4)+
qed

subsection \<open>The deletion timestamp is never written\<close>

text \<open>
  Each phase leaves the deletion timestamp as it found it, in the record it returns and
  in every record it hands to the publisher or persists.
\<close>

lemma fail_frame:
  "DeletionTimestamp (obj (fail r i e)) = DeletionTimestamp i"
  "CallUpdate x \<in> set (calls (fail r i e)) \<Longrightarrow> DeletionTimestamp x = DeletionTimestamp i"
  "CallPublishConnection x d \<notin> set (calls (fail r i e))"
  "CallResolveReferences x \<notin> set (calls (fail r i e))"
  by (auto simp: fail_simps Status_SetConditions_simps)

lemma create_frame:
  "DeletionTimestamp (obj (Reconciler_create r i client)) = DeletionTimestamp i"
  "CallUpdate x \<in> set (calls (Reconciler_create r i client))
     \<Longrightarrow> DeletionTimestamp x = DeletionTimestamp i"
  "CallPublishConnection x d \<in> set (calls (Reconciler_create r i client))
     \<Longrightarrow> DeletionTimestamp x = DeletionTimestamp i"
  "CallResolveReferences x \<notin> set (calls (Reconciler_create r i client))"
  by (auto simp: Reconciler_create_def Let_def fail_def after_def Ignore_def
      Status_SetConditions_def AddFinalizer_def split: sum.splits option.splits if_splits)

lemma sync_frame:
  "DeletionTimestamp (obj (Reconciler_sync r i client)) = DeletionTimestamp i"
  "CallUpdate x \<in> set (calls (Reconciler_sync r i client))
     \<Longrightarrow> DeletionTimestamp x = DeletionTimestamp i"
  "CallPublishConnection x d \<in> set (calls (Reconciler_sync r i client))
     \<Longrightarrow> DeletionTimestamp x = DeletionTimestamp i"
  "CallResolveReferences x \<notin> set (calls (Reconciler_sync r i client))"
  by (auto simp: Reconciler_sync_def Let_def fail_def after_def
      Status_SetConditions_def SetBindable_def split: sum.splits option.splits if_splits)

lemma delete_frame:
  "DeletionTimestamp (obj (Reconciler_delete r i client)) = DeletionTimestamp i"
  "CallUpdate x \<in> set (calls (Reconciler_delete r i client))
     \<Longrightarrow> DeletionTimestamp x = DeletionTimestamp i"
  "CallPublishConnection x d \<notin> set (calls (Reconciler_delete r i client))"
  "CallResolveReferences x \<notin> set (calls (Reconciler_delete r i client))"
  by (auto simp: Reconciler_delete_def Let_def fail_def after_def
      Status_SetConditions_def RemoveFinalizer_def split: sum.splits option.splits if_splits)

lemma phase_frame:
  "DeletionTimestamp (obj (Reconcile_phase (SetupWithManager c) i client)) = DeletionTimestamp i"
  "CallUpdate x \<in> set (calls (Reconcile_phase (SetupWithManager c) i client))
     \<Longrightarrow> DeletionTimestamp x = DeletionTimestamp i"
  "CallPublishConnection x d \<in> set (calls (Reconcile_phase (SetupWithManager c) i client))
     \<Longrightarrow> DeletionTimestamp x = DeletionTimestamp i"
  "CallResolveReferences x \<notin> set (calls (Reconcile_phase (SetupWithManager c) i client))"
  by (auto simp: Reconcile_phase_def SetupWithManager_simps create_frame sync_frame delete_frame
      split: if_splits)

lemma Reconcile_frame:
  assumes "Get c request = Inr i"
  shows "DeletionTimestamp (obj (Reconcile (SetupWithManager c) request)) = DeletionTimestamp i"
    and "CallUpdate x \<in> set (calls (Reconcile (SetupWithManager c) request))
           \<Longrightarrow> DeletionTimestamp x = DeletionTimestamp i"
    and "CallPublishConnection x d \<in> set (calls (Reconcile (SetupWithManager c) request))
           \<Longrightarrow> DeletionTimestamp x = DeletionTimestamp i"
    and "CallResolveReferences x \<in> set (calls (Reconcile (SetupWithManager c) request))
           \<Longrightarrow> DeletionTimestamp x = DeletionTimestamp i"
proof -
  have g: "Get (SetupWithManager c) request = Inr i"
    using assms by (simp add: SetupWithManager_simps)
  have all: "DeletionTimestamp (obj (Reconcile (SetupWithManager c) request)) = DeletionTimestamp i
      \<and> (CallUpdate x \<in> set (calls (Reconcile (SetupWithManager c) request))
           \<longrightarrow> DeletionTimestamp x = DeletionTimestamp i)
      \<and> (CallPublishConnection x d \<in> set (calls (Reconcile (SetupWithManager c) request))
           \<longrightarrow> DeletionTimestamp x = DeletionTimestamp i)
      \<and> (CallResolveReferences x \<in> set (calls (Reconcile (SetupWithManager c) request))
           \<longrightarrow> DeletionTimestamp x = DeletionTimestamp i)"
  proof (cases "connect (SetupWithManager c) i")
    case (Inl e)
    show ?thesis
      unfolding Reconcile_connect_failed[OF g Inl]
      by (auto simp: fail_simps Status_SetConditions_simps)
  next
    case (Inr rdsClient)
    show ?thesis
    proof (cases "IsConditionTrue (RDSInstance_GetCondition i TypeReferencesResolved)")
      case True
      show ?thesis
        unfolding Reconcile_already_resolved[OF g Inr True]
        by (auto simp: phase_frame)
    next
      case False
      show ?thesis
      proof (cases "ResolveReferences (SetupWithManager c) i")
        case None
        show ?thesis
          unfolding Reconcile_resolved[OF g Inr False None]
          by (auto simp: after_simps phase_frame Status_SetConditions_simps)
      next
        case (Some e)
        show ?thesis
          unfolding Reconcile_resolution_failed[OF g Inr False Some]
          by (auto simp: Status_SetConditions_simps)
      qed
    qed
  qed
  show "DeletionTimestamp (obj (Reconcile (SetupWithManager c) request)) = DeletionTimestamp i"
    using all by blast
  show "DeletionTimestamp x = DeletionTimestamp i"
    if "CallUpdate x \<in> set (calls (Reconcile (SetupWithManager c) request))"
    using all that by blast
  show "DeletionTimestamp x = DeletionTimestamp i"
    if "CallPublishConnection x d \<in> set (calls (Reconcile (SetupWithManager c) request))"
    using all that by blast
  show "DeletionTimestamp x = DeletionTimestamp i"
    if "CallResolveReferences x \<in> set (calls (Reconcile (SetupWithManager c) request))"
    using all that by blast
qed

text \<open>
  C8. No operation of the reconciler writes the deletion timestamp. The create, sync
  and delete phases and \<open>fail\<close> return a record with the deletion timestamp they
  were handed, and every record they persist or publish has it too. \<open>Reconcile\<close>, run
  by the reconciler as the controller wires it on a record it fetched, ends with the
  fetched deletion timestamp in its record, and hands it unchanged to the resolver, the
  publisher and the record store. The connect phase returns a client or an error and no
  record; what it returns does not depend on the deletion timestamp.
\<close>

theorem deletion_timestamp_kept:
  "DeletionTimestamp (obj (fail c instance e)) = DeletionTimestamp instance
   \<and> DeletionTimestamp (obj (Reconciler_create c instance client)) = DeletionTimestamp instance
   \<and> DeletionTimestamp (obj (Reconciler_sync c instance client)) = DeletionTimestamp instance
   \<and> DeletionTimestamp (obj (Reconciler_delete c instance client)) = DeletionTimestamp instance
   \<and> (\<forall>x d. CallUpdate x \<in> set (calls (fail c instance e))
             \<or> CallUpdate x \<in> set (calls (Reconciler_create c instance client))
             \<or> CallUpdate x \<in> set (calls (Reconciler_sync c instance client))
             \<or> CallUpdate x \<in> set (calls (Reconciler_delete c instance client))
             \<or> CallPublishConnection x d \<in> set (calls (Reconciler_create c instance client))
             \<or> CallPublishConnection x d \<in> set (calls (Reconciler_sync c instance client))
             \<or> CallPublishConnection x d \<in> set (calls (Reconciler_delete c instance client))
           \<longrightarrow> DeletionTimestamp x = DeletionTimestamp instance)
   \<and> (\<forall>t. Reconciler_connect c (instance\<lparr>DeletionTimestamp := t\<rparr>) =
            Reconciler_connect c instance)
   \<and> (Get c request = Inr instance \<longrightarrow>
         DeletionTimestamp (obj (Reconcile (SetupWithManager c) request)) =
           DeletionTimestamp instance
       \<and> (\<forall>x d. CallUpdate x \<in> set (calls (Reconcile (SetupWithManager c) request))
                 \<or> CallPublishConnection x d \<in> set (calls (Reconcile (SetupWithManager c) request))
                 \<or> CallResolveReferences x \<in> set (calls (Reconcile (SetupWithManager c) request))
               \<longrightarrow> DeletionTimestamp x = DeletionTimestamp instance))"
proof (intro conjI allI impI)
  show "DeletionTimestamp (obj (fail c instance e)) = DeletionTimestamp instance"
    by (rule fail_frame)
  show "DeletionTimestamp (obj (Reconciler_create c instance client)) = DeletionTimestamp instance"
    by (rule create_frame)
  show "DeletionTimestamp (obj (Reconciler_sync c instance client)) = DeletionTimestamp instance"
    by (rule sync_frame)
  show "DeletionTimestamp (obj (Reconciler_delete c instance client)) = DeletionTimestamp instance"
    by (rule delete_frame)
next
  fix x d
  assume "CallUpdate x \<in> set (calls (fail c instance e))
             \<or> CallUpdate x \<in> set (calls (Reconciler_create c instance client))
             \<or> CallUpdate x \<in> set (calls (Reconciler_sync c instance client))
             \<or> CallUpdate x \<in> set (calls (Reconciler_delete c instance client))
             \<or> CallPublishConnection x d \<in> set (calls (Reconciler_create c instance client))
             \<or> CallPublishConnection x d \<in> set (calls (Reconciler_sync c instance client))
             \<or> CallPublishConnection x d \<in> set (calls (Reconciler_delete c instance client))"
  then show "DeletionTimestamp x = DeletionTimestamp instance"
    using fail_frame(2)[where r = c and i = "instance" and x = x and e = e]
      create_frame(2)[where r = c and i = "instance" and x = x and client = client]
      create_frame(3)[where r = c and i = "instance" and x = x and d = d and client = client]
      sync_frame(2)[where r = c and i = "instance" and x = x and client = client]
      sync_frame(3)[where r = c and i = "instance" and x = x and d = d and client = client]
      delete_frame(2)[where r = c and i = "instance" and x = x and client = client]
      delete_frame(3)[where r = c and i = "instance" and x = x and d = d and client = client]
    by blast
next
  fix t
  show "Reconciler_connect c (instance\<lparr>DeletionTimestamp := t\<rparr>) = Reconciler_connect c instance"
    by (simp add: Reconciler_connect_def)
next
  assume "Get c request = Inr instance"
  then show "DeletionTimestamp (obj (Reconcile (SetupWithManager c) request)) =
      DeletionTimestamp instance"
    by (rule Reconcile_frame)
next
  fix x d
  assume "Get c request = Inr instance"
    and "CallUpdate x \<in> set (calls (Reconcile (SetupWithManager c) request))
         \<or> CallPublishConnection x d \<in> set (calls (Reconcile (SetupWithManager c) request))
         \<or> CallResolveReferences x \<in> set (calls (Reconcile (SetupWithManager c) request))"
  then show "DeletionTimestamp x = DeletionTimestamp instance"
    using Reconcile_frame(2-4) by blast
qed

theorem deletion_timestamp_kept_example:
  "Get (example_collaborators\<lparr>Get := \<lambda>key. Inr example_deleting\<rparr>) ''default/db'' =
     Inr example_deleting
   \<and> DeletionTimestamp (obj (Reconcile
         (SetupWithManager (example_collaborators\<lparr>Get := \<lambda>key. Inr example_deleting\<rparr>))
         ''default/db'')) = Some 1700000000
   \<and> DeletionTimestamp (obj (Reconciler_delete example_collaborators example_deleting
         example_client)) = Some 1700000000"
proof -
  have g: "Get (example_collaborators\<lparr>Get := \<lambda>key. Inr example_deleting\<rparr>) ''default/db'' =
     Inr example_deleting"
    by simp
  have d: "DeletionTimestamp example_deleting = Some 1700000000"
    by (simp add: example_deleting_def)
  show ?thesis
    using g
      deletion_timestamp_kept[of "example_collaborators\<lparr>Get := \<lambda>key. Inr example_deleting\<rparr>"
        example_deleting _ _ "''default/db''"]
      deletion_timestamp_kept[of example_collaborators example_deleting _ example_client]
    unfolding d by blast
qed

subsection \<open>The reference gate\<close>

text \<open>
  Setting conditions of other types leaves the entry of a type, and what
  \<open>GetCondition\<close> reads for it, as they were.
\<close>

lemma find_replace_other:
  "Type c \<noteq> ct \<Longrightarrow>
   find (\<lambda>x. Type x = ct) (map (\<lambda>x. if Type x = Type c then c else x) cs) =
   find (\<lambda>x. Type x = ct) cs"
  by (induction cs) auto

lemma find_append_other:
  "Type c \<noteq> ct \<Longrightarrow> find (\<lambda>x. Type x = ct) (cs @ [c]) = find (\<lambda>x. Type x = ct) cs"
  by (induction cs) auto

lemma GetCondition_SetCondition_other:
  "Type c \<noteq> ct \<Longrightarrow> GetCondition ct (SetCondition c cs) = GetCondition ct cs"
  by (simp add: GetCondition_def SetCondition_def find_replace_other find_append_other)

lemma GetCondition_kept:
  "Type c \<noteq> ct \<Longrightarrow> GetCondition ct (SetConditions [c] cs) = GetCondition ct cs"
  "Type c \<noteq> ct \<Longrightarrow> Type d \<noteq> ct \<Longrightarrow>
     GetCondition ct (SetConditions [c, d] cs) = GetCondition ct cs"
  by (simp_all add: SetConditions_Cons SetConditions_Nil GetCondition_SetCondition_other)

lemma member_kept:
  "x \<in> set cs \<Longrightarrow> Type c \<noteq> Type x \<Longrightarrow> x \<in> set (SetConditions [c] cs)"
  "x \<in> set cs \<Longrightarrow> Type c \<noteq> Type x \<Longrightarrow> Type d \<noteq> Type x \<Longrightarrow>
     x \<in> set (SetConditions [c, d] cs)"
  by (simp_all add: SetConditions_Cons SetConditions_Nil SetCondition_keeps)

text \<open>
  The phases and \<open>fail\<close> set conditions of the types Ready and Synced alone: what
  the gate reads is the same on the record they return as on the record they were
  handed, and that record is the one they persist, in their last call.
\<close>

lemma fail_keeps_gate:
  "RDSInstance_GetCondition (obj (fail r i e)) TypeReferencesResolved =
     RDSInstance_GetCondition i TypeReferencesResolved"
  "ReferenceResolutionSuccess \<in> set (Conditions (Status i)) \<Longrightarrow>
     ReferenceResolutionSuccess \<in> set (Conditions (Status (obj (fail r i e))))"
  "\<exists>before. calls (fail r i e) = before @ [CallUpdate (obj (fail r i e))]"
  by (simp_all add: fail_simps RDSInstance_GetCondition_def Status_SetConditions_simps
      GetCondition_kept member_kept cond_types)

lemma create_keeps_gate:
  "RDSInstance_GetCondition (obj (Reconciler_create r i client)) TypeReferencesResolved =
     RDSInstance_GetCondition i TypeReferencesResolved"
  "ReferenceResolutionSuccess \<in> set (Conditions (Status i)) \<Longrightarrow>
     ReferenceResolutionSuccess \<in> set (Conditions (Status (obj (Reconciler_create r i client))))"
  "\<exists>before. calls (Reconciler_create r i client) =
     before @ [CallUpdate (obj (Reconciler_create r i client))]"
proof -
  from create_obj_cases[of r i client]
  consider e where "obj (Reconciler_create r i client) =
      Status_SetConditions [ReconcileError e] (Status_SetConditions [Creating] i)"
    | "obj (Reconciler_create r i client) = created_record i"
    by blast
  then have "RDSInstance_GetCondition (obj (Reconciler_create r i client)) TypeReferencesResolved =
       RDSInstance_GetCondition i TypeReferencesResolved
     \<and> (ReferenceResolutionSuccess \<in> set (Conditions (Status i)) \<longrightarrow>
         ReferenceResolutionSuccess
           \<in> set (Conditions (Status (obj (Reconciler_create r i client)))))"
  proof cases
    case 1
    then show ?thesis
      by (simp add: RDSInstance_GetCondition_def Status_SetConditions_simps GetCondition_kept
          member_kept cond_types)
  next
    case 2
    then show ?thesis
      by (simp add: RDSInstance_GetCondition_def created_record_exact(1) GetCondition_kept
          member_kept cond_types)
  qed
  then show "RDSInstance_GetCondition (obj (Reconciler_create r i client)) TypeReferencesResolved =
       RDSInstance_GetCondition i TypeReferencesResolved"
    and "ReferenceResolutionSuccess \<in> set (Conditions (Status i)) \<Longrightarrow>
       ReferenceResolutionSuccess \<in> set (Conditions (Status (obj (Reconciler_create r i client))))"
    by blast+
  show "\<exists>before. calls (Reconciler_create r i client) =
     before @ [CallUpdate (obj (Reconciler_create r i client))]"
    using create_persists_last[of r i client] by blast
qed

lemma sync_keeps_gate:
  "RDSInstance_GetCondition (obj (Reconciler_sync r i client)) TypeReferencesResolved =
     RDSInstance_GetCondition i TypeReferencesResolved"
  "ReferenceResolutionSuccess \<in> set (Conditions (Status i)) \<Longrightarrow>
     ReferenceResolutionSuccess \<in> set (Conditions (Status (obj (Reconciler_sync r i client))))"
  "\<exists>before. calls (Reconciler_sync r i client) =
     before @ [CallUpdate (obj (Reconciler_sync r i client))]"
  by (auto simp: Reconciler_sync_def Let_def fail_def after_def RDSInstance_GetCondition_def
      Status_SetConditions_def SetBindable_def GetCondition_kept member_kept cond_types
      split: sum.splits option.splits)

lemma delete_keeps_gate:
  "RDSInstance_GetCondition (obj (Reconciler_delete r i client)) TypeReferencesResolved =
     RDSInstance_GetCondition i TypeReferencesResolved"
  "ReferenceResolutionSuccess \<in> set (Conditions (Status i)) \<Longrightarrow>
     ReferenceResolutionSuccess \<in> set (Conditions (Status (obj (Reconciler_delete r i client))))"
  "\<exists>before. calls (Reconciler_delete r i client) =
     before @ [CallUpdate (obj (Reconciler_delete r i client))]"
  by (auto simp: Reconciler_delete_def Let_def fail_def after_def RDSInstance_GetCondition_def
      Status_SetConditions_def RemoveFinalizer_def GetCondition_kept member_kept cond_types
      split: sum.splits option.splits)

lemma phase_keeps_gate:
  "RDSInstance_GetCondition (obj (Reconcile_phase (SetupWithManager c) i client))
       TypeReferencesResolved =
     RDSInstance_GetCondition i TypeReferencesResolved"
  "ReferenceResolutionSuccess \<in> set (Conditions (Status i)) \<Longrightarrow>
     ReferenceResolutionSuccess
       \<in> set (Conditions (Status (obj (Reconcile_phase (SetupWithManager c) i client))))"
  "\<exists>before. calls (Reconcile_phase (SetupWithManager c) i client) =
     before @ [CallUpdate (obj (Reconcile_phase (SetupWithManager c) i client))]"
  by (simp_all add: Reconcile_phase_def SetupWithManager_simps create_keeps_gate
      sync_keeps_gate delete_keeps_gate)

text \<open>
  The reconciler as the controller wires it, on a fetched record: once the gate reads
  true the resolver is not called and the gate reads true on the record returned; and
  when the resolver has just succeeded, the record returned carries
  ReferenceResolutionSuccess and is persisted in the last call.
\<close>

lemma wired_gate_closed:
  assumes "Get c request = Inr i"
    and "IsConditionTrue (RDSInstance_GetCondition i TypeReferencesResolved)"
  shows "CallResolveReferences x \<notin> set (calls (Reconcile (SetupWithManager c) request))"
    and "IsConditionTrue
           (RDSInstance_GetCondition (obj (Reconcile (SetupWithManager c) request))
              TypeReferencesResolved)"
proof -
  have g: "Get (SetupWithManager c) request = Inr i"
    using assms(1) by (simp add: SetupWithManager_simps)
  have "CallResolveReferences x \<notin> set (calls (Reconcile (SetupWithManager c) request))
      \<and> IsConditionTrue
           (RDSInstance_GetCondition (obj (Reconcile (SetupWithManager c) request))
              TypeReferencesResolved)"
  proof (cases "connect (SetupWithManager c) i")
    case (Inl e)
    show ?thesis
      unfolding Reconcile_connect_failed[OF g Inl]
      using assms(2) by (simp add: fail_keeps_gate(1) fail_frame(4))
  next
    case (Inr rdsClient)
    show ?thesis
      unfolding Reconcile_already_resolved[OF g Inr assms(2)]
      using assms(2) by (simp add: phase_keeps_gate(1) phase_frame(4))
  qed
  then show "CallResolveReferences x \<notin> set (calls (Reconcile (SetupWithManager c) request))"
    and "IsConditionTrue
           (RDSInstance_GetCondition (obj (Reconcile (SetupWithManager c) request))
              TypeReferencesResolved)"
    by blast+
qed

lemma wired_resolved_persisted:
  assumes "Get c request = Inr i"
    and "connect (SetupWithManager c) i = Inr rdsClient"
    and "\<not> IsConditionTrue (RDSInstance_GetCondition i TypeReferencesResolved)"
    and "ResolveReferences c i = None"
  shows "ReferenceResolutionSuccess
           \<in> set (Conditions (Status (obj (Reconcile (SetupWithManager c) request))))"
    and "IsConditionTrue
           (RDSInstance_GetCondition (obj (Reconcile (SetupWithManager c) request))
              TypeReferencesResolved)"
    and "\<exists>before. calls (Reconcile (SetupWithManager c) request) =
           before @ [CallUpdate (obj (Reconcile (SetupWithManager c) request))]"
proof -
  have g: "Get (SetupWithManager c) request = Inr i"
    using assms(1) by (simp add: SetupWithManager_simps)
  have n: "ResolveReferences (SetupWithManager c) i = None"
    using assms(4) by (simp add: SetupWithManager_simps)
  note out = Reconcile_resolved[OF g assms(2,3) n]
  show "ReferenceResolutionSuccess
           \<in> set (Conditions (Status (obj (Reconcile (SetupWithManager c) request))))"
    unfolding out by (simp add: after_simps phase_keeps_gate(2) set_one)
  show "IsConditionTrue
           (RDSInstance_GetCondition (obj (Reconcile (SetupWithManager c) request))
              TypeReferencesResolved)"
    unfolding out by (simp add: after_simps phase_keeps_gate(1) resolved_is_true)
  from phase_keeps_gate(3)[of c "Status_SetConditions [ReferenceResolutionSuccess] i" rdsClient]
  obtain before where
    "calls (Reconcile_phase (SetupWithManager c)
        (Status_SetConditions [ReferenceResolutionSuccess] i) rdsClient) =
     before @ [CallUpdate (obj (Reconcile_phase (SetupWithManager c)
        (Status_SetConditions [ReferenceResolutionSuccess] i) rdsClient))]"
    by blast
  then have "calls (Reconcile (SetupWithManager c) request) =
      (CallResolveReferences i # before) @
        [CallUpdate (obj (Reconcile (SetupWithManager c) request))]"
    unfolding out by (simp add: after_simps)
  then show "\<exists>before. calls (Reconcile (SetupWithManager c) request) =
           before @ [CallUpdate (obj (Reconcile (SetupWithManager c) request))]"
    by blast
qed

text \<open>
  C5. With the record fetched and the client built: when the ReferencesResolved
  condition is not true and the resolver fails, \<open>Reconcile\<close> sets one condition --
  ReferenceResolutionBlocked for an access error, ReconcileError for any other --
  persists the record and asks for a requeue after 60 seconds. Its calls are the
  resolver's and the persist; its outcome is the same whatever the create, sync and
  delete functions are, so none of them is entered; \<open>InstanceName\<close> is as fetched.
  When the resolver succeeds, the phase runs on the record with
  ReferenceResolutionSuccess set, and on such a record the gate reads true. When the
  gate reads true, \<open>Reconcile\<close> goes to the branch at once, without calling the
  resolver. For the reconciler as the controller wires it the flag lasts: after a
  successful resolution the record \<open>Reconcile\<close> returns carries
  ReferenceResolutionSuccess, the gate reads true on it, and it is the record persisted
  in the last call; any later invocation that fetches that record makes no call to the
  resolver and returns a record on which the gate still reads true. The same holds
  of every invocation that finds the gate true.
\<close>

theorem reference_resolution_gate:
  assumes "Get r request = Inr instance"
    and "connect r instance = Inr rdsClient"
  shows "(\<not> IsConditionTrue (RDSInstance_GetCondition instance TypeReferencesResolved)
          \<and> ResolveReferences r instance = Some e \<longrightarrow>
            Reconcile r request =
              \<lparr>res = \<lparr>Requeue = False, RequeueAfter = 60 * Second\<rparr>,
               err = Wrap (Update r (Status_SetConditions
                       [if IsReferencesAccessError e then ReferenceResolutionBlocked e
                        else ReconcileError e] instance)) errUpdateManagedStatus,
               obj = Status_SetConditions
                       [if IsReferencesAccessError e then ReferenceResolutionBlocked e
                        else ReconcileError e] instance,
               calls = [CallResolveReferences instance,
                        CallUpdate (Status_SetConditions
                          [if IsReferencesAccessError e then ReferenceResolutionBlocked e
                           else ReconcileError e] instance)]\<rparr>
          \<and> InstanceName (Status (obj (Reconcile r request))) = InstanceName (Status instance)
          \<and> (\<forall>c s d. Reconcile (r\<lparr>create := c, sync := s, delete := d\<rparr>) request =
                        Reconcile r request))
       \<and> (\<not> IsConditionTrue (RDSInstance_GetCondition instance TypeReferencesResolved)
          \<and> ResolveReferences r instance = None \<longrightarrow>
            Reconcile r request =
              after [CallResolveReferences instance]
                (Reconcile_phase r (Status_SetConditions [ReferenceResolutionSuccess] instance)
                   rdsClient)
          \<and> ReferenceResolutionSuccess
              \<in> set (Conditions (Status (Status_SetConditions [ReferenceResolutionSuccess] instance)))
          \<and> IsConditionTrue
              (RDSInstance_GetCondition (Status_SetConditions [ReferenceResolutionSuccess] instance)
                 TypeReferencesResolved))
       \<and> (IsConditionTrue (RDSInstance_GetCondition instance TypeReferencesResolved) \<longrightarrow>
            Reconcile r request = Reconcile_phase r instance rdsClient)
       \<and> (\<forall>c. r = SetupWithManager c
              \<and> \<not> IsConditionTrue (RDSInstance_GetCondition instance TypeReferencesResolved)
              \<and> ResolveReferences r instance = None \<longrightarrow>
            ReferenceResolutionSuccess \<in> set (Conditions (Status (obj (Reconcile r request))))
          \<and> IsConditionTrue
              (RDSInstance_GetCondition (obj (Reconcile r request)) TypeReferencesResolved)
          \<and> (\<exists>before. calls (Reconcile r request) =
                 before @ [CallUpdate (obj (Reconcile r request))])
          \<and> (\<forall>c' request'. Get c' request' = Inr (obj (Reconcile r request)) \<longrightarrow>
                (\<forall>x. CallResolveReferences x
                      \<notin> set (calls (Reconcile (SetupWithManager c') request')))
              \<and> IsConditionTrue
                  (RDSInstance_GetCondition (obj (Reconcile (SetupWithManager c') request'))
                     TypeReferencesResolved)))
       \<and> (\<forall>c. r = SetupWithManager c
              \<and> IsConditionTrue (RDSInstance_GetCondition instance TypeReferencesResolved) \<longrightarrow>
            (\<forall>x. CallResolveReferences x \<notin> set (calls (Reconcile r request)))
          \<and> IsConditionTrue
              (RDSInstance_GetCondition (obj (Reconcile r request)) TypeReferencesResolved))"
proof (intro conjI impI allI)
  assume a: "\<not> IsConditionTrue (RDSInstance_GetCondition instance TypeReferencesResolved)
          \<and> ResolveReferences r instance = Some e"
  note out = Reconcile_resolution_failed[OF assms conjunct1[OF a] conjunct2[OF a]]
  show "Reconcile r request =
              \<lparr>res = \<lparr>Requeue = False, RequeueAfter = 60 * Second\<rparr>,
               err = Wrap (Update r (Status_SetConditions
                       [if IsReferencesAccessError e then ReferenceResolutionBlocked e
                        else ReconcileError e] instance)) errUpdateManagedStatus,
               obj = Status_SetConditions
                       [if IsReferencesAccessError e then ReferenceResolutionBlocked e
                        else ReconcileError e] instance,
               calls = [CallResolveReferences instance,
                        CallUpdate (Status_SetConditions
                          [if IsReferencesAccessError e then ReferenceResolutionBlocked e
                           else ReconcileError e] instance)]\<rparr>"
    unfolding out by (simp add: aLongWait_def)
  show "InstanceName (Status (obj (Reconcile r request))) = InstanceName (Status instance)"
    unfolding out by (simp add: Status_SetConditions_simps)
  fix c s d
  have "Get (r\<lparr>create := c, sync := s, delete := d\<rparr>) request = Inr instance"
    and "connect (r\<lparr>create := c, sync := s, delete := d\<rparr>) instance = Inr rdsClient"
    and "ResolveReferences (r\<lparr>create := c, sync := s, delete := d\<rparr>) instance = Some e"
    using assms a by simp_all
  from Reconcile_resolution_failed[OF this(1,2) conjunct1[OF a] this(3)]
  show "Reconcile (r\<lparr>create := c, sync := s, delete := d\<rparr>) request = Reconcile r request"
    unfolding out by simp
next
  assume a: "\<not> IsConditionTrue (RDSInstance_GetCondition instance TypeReferencesResolved)
          \<and> ResolveReferences r instance = None"
  show "Reconcile r request =
              after [CallResolveReferences instance]
                (Reconcile_phase r (Status_SetConditions [ReferenceResolutionSuccess] instance)
                   rdsClient)"
    by (rule Reconcile_resolved[OF assms conjunct1[OF a] conjunct2[OF a]])
next
  show "ReferenceResolutionSuccess
      \<in> set (Conditions (Status (Status_SetConditions [ReferenceResolutionSuccess] instance)))"
    by (rule set_one)
next
  show "IsConditionTrue
      (RDSInstance_GetCondition (Status_SetConditions [ReferenceResolutionSuccess] instance)
         TypeReferencesResolved)"
    by (rule resolved_is_true)
next
  assume "IsConditionTrue (RDSInstance_GetCondition instance TypeReferencesResolved)"
  then show "Reconcile r request = Reconcile_phase r instance rdsClient"
    by (rule Reconcile_already_resolved[OF assms])
next
  fix c
  assume a: "r = SetupWithManager c
              \<and> \<not> IsConditionTrue (RDSInstance_GetCondition instance TypeReferencesResolved)
              \<and> ResolveReferences r instance = None"
  then have w: "r = SetupWithManager c"
    by blast
  have g: "Get c request = Inr instance"
    using assms(1) w by (simp add: SetupWithManager_simps)
  have k: "connect (SetupWithManager c) instance = Inr rdsClient"
    using assms(2) w by simp
  have n: "ResolveReferences c instance = None"
    using a w by (simp add: SetupWithManager_simps)
  note p = wired_resolved_persisted[OF g k conjunct1[OF conjunct2[OF a]] n]
  show "ReferenceResolutionSuccess \<in> set (Conditions (Status (obj (Reconcile r request))))"
    unfolding w by (rule p(1))
  show t: "IsConditionTrue
      (RDSInstance_GetCondition (obj (Reconcile r request)) TypeReferencesResolved)"
    unfolding w by (rule p(2))
  show "\<exists>before. calls (Reconcile r request) =
      before @ [CallUpdate (obj (Reconcile r request))]"
    unfolding w by (rule p(3))
  fix c' :: Collaborators and request' :: NamespacedName
  assume g': "Get c' request' = Inr (obj (Reconcile r request))"
  show "CallResolveReferences x \<notin> set (calls (Reconcile (SetupWithManager c') request'))"
    for x
    by (rule wired_gate_closed(1)[OF g' t])
  show "IsConditionTrue
      (RDSInstance_GetCondition (obj (Reconcile (SetupWithManager c') request'))
         TypeReferencesResolved)"
    by (rule wired_gate_closed(2)[OF g' t])
next
  fix c
  assume a: "r = SetupWithManager c
              \<and> IsConditionTrue (RDSInstance_GetCondition instance TypeReferencesResolved)"
  then have w: "r = SetupWithManager c"
    by blast
  have g: "Get c request = Inr instance"
    using assms(1) w by (simp add: SetupWithManager_simps)
  show "CallResolveReferences x \<notin> set (calls (Reconcile r request))" for x
    unfolding w by (rule wired_gate_closed(1)[OF g conjunct2[OF a]])
  show "IsConditionTrue
      (RDSInstance_GetCondition (obj (Reconcile r request)) TypeReferencesResolved)"
    unfolding w by (rule wired_gate_closed(2)[OF g conjunct2[OF a]])
qed

theorem reference_resolution_gate_example:
  "Get (SetupWithManager (example_collaborators
          \<lparr>ResolveReferences := \<lambda>i. Some (ReferencesAccessError ''provider not ready'')\<rparr>))
     ''default/db'' = Inr example_instance
   \<and> connect (SetupWithManager (example_collaborators
          \<lparr>ResolveReferences := \<lambda>i. Some (ReferencesAccessError ''provider not ready'')\<rparr>))
       example_instance = Inr example_client
   \<and> \<not> IsConditionTrue (RDSInstance_GetCondition example_instance TypeReferencesResolved)
   \<and> ResolveReferences (SetupWithManager (example_collaborators
          \<lparr>ResolveReferences := \<lambda>i. Some (ReferencesAccessError ''provider not ready'')\<rparr>))
       example_instance = Some (ReferencesAccessError ''provider not ready'')
   \<and> Reconcile (SetupWithManager (example_collaborators
          \<lparr>ResolveReferences := \<lambda>i. Some (ReferencesAccessError ''provider not ready'')\<rparr>))
       ''default/db'' =
       \<lparr>res = \<lparr>Requeue = False, RequeueAfter = 60000000000\<rparr>,
        err = None,
        obj = Status_SetConditions
                [ReferenceResolutionBlocked (ReferencesAccessError ''provider not ready'')]
                example_instance,
        calls = [CallResolveReferences example_instance,
                 CallUpdate (Status_SetConditions
                   [ReferenceResolutionBlocked (ReferencesAccessError ''provider not ready'')]
                   example_instance)]\<rparr>
   \<and> Get (SetupWithManager example_collaborators) ''default/db'' = Inr example_instance
   \<and> connect (SetupWithManager example_collaborators) example_instance = Inr example_client
   \<and> ResolveReferences (SetupWithManager example_collaborators) example_instance = None
   \<and> ReferenceResolutionSuccess
       \<in> set (Conditions (Status (obj
           (Reconcile (SetupWithManager example_collaborators) ''default/db''))))
   \<and> IsConditionTrue
       (RDSInstance_GetCondition
          (obj (Reconcile (SetupWithManager example_collaborators) ''default/db''))
          TypeReferencesResolved)"
proof -
  have g2: "Get (SetupWithManager example_collaborators) ''default/db'' = Inr example_instance"
    by (simp add: SetupWithManager_simps example_collaborators_def)
  have c2: "connect (SetupWithManager example_collaborators) example_instance =
      Inr example_client"
    by (simp add: SetupWithManager_simps Reconciler_connect_def example_collaborators_def)
  have f2: "ResolveReferences (SetupWithManager example_collaborators) example_instance = None"
    by (simp add: SetupWithManager_simps example_collaborators_def)
  have g: "Get (SetupWithManager (example_collaborators
          \<lparr>ResolveReferences := \<lambda>i. Some (ReferencesAccessError ''provider not ready'')\<rparr>))
     ''default/db'' = Inr example_instance"
    by (simp add: SetupWithManager_simps example_collaborators_def)
  have c: "connect (SetupWithManager (example_collaborators
          \<lparr>ResolveReferences := \<lambda>i. Some (ReferencesAccessError ''provider not ready'')\<rparr>))
       example_instance = Inr example_client"
    by (simp add: SetupWithManager_simps Reconciler_connect_def example_collaborators_def)
  have t: "\<not> IsConditionTrue (RDSInstance_GetCondition example_instance TypeReferencesResolved)"
    by (simp add: IsConditionTrue_def RDSInstance_GetCondition_def GetCondition_def
        example_instance_def)
  have f: "ResolveReferences (SetupWithManager (example_collaborators
          \<lparr>ResolveReferences := \<lambda>i. Some (ReferencesAccessError ''provider not ready'')\<rparr>))
       example_instance = Some (ReferencesAccessError ''provider not ready'')"
    by (simp add: SetupWithManager_simps)
  have u: "Update (SetupWithManager (example_collaborators
          \<lparr>ResolveReferences := \<lambda>i. Some (ReferencesAccessError ''provider not ready'')\<rparr>)) x = None"
    for x
    by (simp add: SetupWithManager_simps example_collaborators_def)
  have "Reconcile (SetupWithManager (example_collaborators
          \<lparr>ResolveReferences := \<lambda>i. Some (ReferencesAccessError ''provider not ready'')\<rparr>))
       ''default/db'' =
       \<lparr>res = \<lparr>Requeue = False, RequeueAfter = 60000000000\<rparr>,
        err = None,
        obj = Status_SetConditions
                [ReferenceResolutionBlocked (ReferencesAccessError ''provider not ready'')]
                example_instance,
        calls = [CallResolveReferences example_instance,
                 CallUpdate (Status_SetConditions
                   [ReferenceResolutionBlocked (ReferencesAccessError ''provider not ready'')]
                   example_instance)]\<rparr>"
    using reference_resolution_gate[OF g c,
        where e = "ReferencesAccessError ''provider not ready''"] t f
    by (simp add: u Second_def)
  moreover have "ReferenceResolutionSuccess
       \<in> set (Conditions (Status (obj
           (Reconcile (SetupWithManager example_collaborators) ''default/db''))))
   \<and> IsConditionTrue
       (RDSInstance_GetCondition
          (obj (Reconcile (SetupWithManager example_collaborators) ''default/db''))
          TypeReferencesResolved)"
    using reference_resolution_gate[OF g2 c2] t f2 by blast
  ultimately show ?thesis
    using g c t f g2 c2 f2 by blast
qed

end
